theory Spec2Isabelle
  imports Main "HOL-Library.Word" "HOL-Library.Multiset"
begin

unbundle bit_operations_syntax

section \<open>Types and geometry\<close>

text \<open>
  The declarations of \<^verbatim>\<open>types.h\<close> and \<^verbatim>\<open>bitboard.h\<close> are not among the sources.
  Squares, gates and piece types are the integer enumerations the sources use them as:
  a square is an index 0..63 with the file in the low three bits (\<^verbatim>\<open>SQ_NONE\<close> is 64),
  a bitboard is a 64-bit word whose bit \<open>i\<close> is square \<open>i\<close>.  The numbering of the
  piece types follows the rows of the \<^verbatim>\<open>steps\<close> table in \<^verbatim>\<open>Bitboards::init\<close>.
  A piece pairs a colour with a piece type; \<^verbatim>\<open>NO_PIECE\<close> is the pair of \<^verbatim>\<open>WHITE\<close>
  and \<^verbatim>\<open>NO_PIECE_TYPE\<close>, as the integer 0 is in the engine.
\<close>

type_synonym Bitboard = "64 word"
type_synonym Key = "64 word"
type_synonym Square = int
type_synonym File = int
type_synonym Rank = int
type_synonym Gate = int
type_synonym PieceType = nat
type_synonym Val = int
type_synonym Score = int

datatype Color = WHITE | BLACK

type_synonym Piece = "Color \<times> PieceType"

definition NO_PIECE_TYPE :: PieceType where "NO_PIECE_TYPE = 0"
definition ALL_PIECES :: PieceType where "ALL_PIECES = 0"
definition PAWN :: PieceType where "PAWN = 1"
definition KNIGHT :: PieceType where "KNIGHT = 2"
definition BISHOP :: PieceType where "BISHOP = 3"
definition ROOK :: PieceType where "ROOK = 4"
definition QUEEN :: PieceType where "QUEEN = 5"
definition CANNON :: PieceType where "CANNON = 6"
definition LEOPARD :: PieceType where "LEOPARD = 7"
definition ARCHBISHOP :: PieceType where "ARCHBISHOP = 8"
definition CHANCELLOR :: PieceType where "CHANCELLOR = 9"

definition NO_PIECE :: Piece where "NO_PIECE = (WHITE, NO_PIECE_TYPE)"

definition make_piece :: "Color \<Rightarrow> PieceType \<Rightarrow> Piece" where
  "make_piece c pt = (c, pt)"

definition type_of :: "Piece \<Rightarrow> PieceType" where "type_of pc = snd pc"
definition color_of :: "Piece \<Rightarrow> Color" where "color_of pc = fst pc"

fun flip_color :: "Color \<Rightarrow> Color" where
  "flip_color WHITE = BLACK"
| "flip_color BLACK = WHITE"

definition SQ_A1 :: Square where "SQ_A1 = 0"
definition SQ_H1 :: Square where "SQ_H1 = 7"
definition SQ_H8 :: Square where "SQ_H8 = 63"
definition SQ_NONE :: Square where "SQ_NONE = 64"
definition SQ_C1 :: Square where "SQ_C1 = 2"
definition SQ_D1 :: Square where "SQ_D1 = 3"
definition SQ_F1 :: Square where "SQ_F1 = 5"
definition SQ_G1 :: Square where "SQ_G1 = 6"

definition NO_GATE :: Gate where "NO_GATE = 0"

definition file_of :: "Square \<Rightarrow> File" where "file_of s = s mod 8"
definition rank_of :: "Square \<Rightarrow> Rank" where "rank_of s = s div 8"

definition make_square :: "File \<Rightarrow> Rank \<Rightarrow> Square" where
  "make_square f r = r * 8 + f"

definition is_ok :: "Square \<Rightarrow> bool" where
  "is_ok s = (SQ_A1 \<le> s \<and> s \<le> SQ_H8)"

definition pawn_push :: "Color \<Rightarrow> int" where
  "pawn_push c = (case c of WHITE \<Rightarrow> 8 | BLACK \<Rightarrow> - 8)"

text \<open>\<^verbatim>\<open>relative_square(c, s)\<close> mirrors the rank for Black: \<^verbatim>\<open>s ^ (c * 56)\<close>.\<close>

definition relative_square :: "Color \<Rightarrow> Square \<Rightarrow> Square" where
  "relative_square c s = (case c of WHITE \<Rightarrow> s | BLACK \<Rightarrow> make_square (file_of s) (7 - rank_of s))"

definition relative_rank :: "Color \<Rightarrow> Rank \<Rightarrow> Rank" where
  "relative_rank c r = (case c of WHITE \<Rightarrow> r | BLACK \<Rightarrow> 7 - r)"

definition SquareBB :: "Square \<Rightarrow> Bitboard" where
  "SquareBB s = push_bit (nat s) 1"

definition Rank1BB :: Bitboard where "Rank1BB = 0xFF"
definition Rank8BB :: Bitboard where "Rank8BB = 0xFF00000000000000"

text \<open>
  \<^verbatim>\<open>distance(s1, s2)\<close> is the larger of the file and the rank distance, as
  \<^verbatim>\<open>Bitboards::init\<close> fills \<^verbatim>\<open>SquareDistance\<close>.
\<close>

definition distance :: "Square \<Rightarrow> Square \<Rightarrow> int" where
  "distance s1 s2 = max \<bar>file_of s1 - file_of s2\<bar> \<bar>rank_of s1 - rank_of s2\<bar>"

section \<open>Custom-piece attacks (betza.h, betza.cpp)\<close>

record BetzaPattern =
  notation_of :: string
  offsets :: "(int \<times> int) list"
  isRider :: bool
  captureOnly :: bool
  quietOnly :: bool

record BetzaPiece =
  name :: string
  patterns :: "BetzaPattern list"

type_synonym Registry = "PieceType \<rightharpoonup> BetzaPiece"

definition mk_pattern :: "string \<Rightarrow> (int \<times> int) list \<Rightarrow> bool \<Rightarrow> bool \<Rightarrow> bool \<Rightarrow> BetzaPattern" where
  "mk_pattern n os r co qo =
     \<lparr>notation_of = n, offsets = os, isRider = r, captureOnly = co, quietOnly = qo\<rparr>"

definition knight_offsets :: "(int \<times> int) list" where
  "knight_offsets = [(2,1), (2,-1), (-2,1), (-2,-1), (1,2), (1,-2), (-1,2), (-1,-2)]"

definition king_offsets :: "(int \<times> int) list" where
  "king_offsets = [(1,0), (-1,0), (0,1), (0,-1), (1,1), (1,-1), (-1,1), (-1,-1)]"

definition rook_offsets :: "(int \<times> int) list" where
  "rook_offsets = [(1,0), (-1,0), (0,1), (0,-1)]"

definition bishop_offsets :: "(int \<times> int) list" where
  "bishop_offsets = [(1,1), (1,-1), (-1,1), (-1,-1)]"

text \<open>
  \<^verbatim>\<open>BetzaManager::addCustomPiece\<close>.  The name given to a piece whose \<^verbatim>\<open>name\<close> argument
  is empty is built from \<^verbatim>\<open>CUSTOM_PIECES\<close>, which is not among the sources: it is the
  parameter \<open>dflt\<close>.  The predicate \<^verbatim>\<open>is_custom\<close> is a parameter for the same reason.
\<close>

definition parse_notation :: "string \<Rightarrow> BetzaPattern list" where
  "parse_notation n =
    (if n = ''N'' then [mk_pattern ''N'' knight_offsets False False False]
     else if n = ''K'' then [mk_pattern ''K'' king_offsets False False False]
     else if n = ''R'' then [mk_pattern ''R'' rook_offsets True False False]
     else if n = ''B'' then [mk_pattern ''B'' bishop_offsets True False False]
     else if n = ''Q'' then [mk_pattern ''Q'' king_offsets True False False]
     else if n = ''WF'' then [mk_pattern ''WF'' king_offsets False False False]
     else if n = ''mWcF'' then
       [mk_pattern ''mW'' [(0,1)] False False True,
        mk_pattern ''cF'' [(1,1), (-1,1)] False True False]
     else if n = ''RN'' then
       [mk_pattern ''R'' rook_offsets True False False,
        mk_pattern ''N'' knight_offsets False False False]
     else if n = ''HW'' then
       [mk_pattern ''H'' [(3,0), (-3,0), (0,3), (0,-3)] False False False,
        mk_pattern ''W'' rook_offsets False False False]
     else [])"

definition addCustomPiece ::
  "(PieceType \<Rightarrow> bool) \<Rightarrow> (PieceType \<Rightarrow> string) \<Rightarrow> Registry \<Rightarrow> PieceType \<Rightarrow> string \<Rightarrow> string \<Rightarrow> Registry" where
  "addCustomPiece is_custom dflt reg pt n nm =
    (if \<not> is_custom pt then reg
     else reg(pt \<mapsto> \<lparr>name = (if nm = [] then dflt pt else nm), patterns = parse_notation n\<rparr>))"

text \<open>
  The rider loop of \<^verbatim>\<open>getAttacks\<close>: \<^verbatim>\<open>while (true)\<close> with three exits.  With a zero
  offset on an unoccupied square the loop of the source does not end, so the model is a
  partial function and not returning is \<open>None\<close>.
\<close>

partial_function (option) rider_walk ::
  "int \<Rightarrow> int \<Rightarrow> Bitboard \<Rightarrow> Square \<Rightarrow> Bitboard \<Rightarrow> Bitboard option" where
  "rider_walk fileOffset rankOffset occupied to attacks =
    (let newSquare = to + fileOffset + 8 * rankOffset in
     if newSquare < SQ_A1 \<or> newSquare > SQ_H8 then Some attacks
     else if \<bar>file_of newSquare - file_of (newSquare - fileOffset - 8 * rankOffset)\<bar> \<noteq> \<bar>fileOffset\<bar>
       then Some attacks
     else let attacks' = attacks OR SquareBB newSquare in
       if occupied AND SquareBB newSquare \<noteq> 0 then Some attacks'
       else rider_walk fileOffset rankOffset occupied newSquare attacks')"

declare rider_walk.simps [code]

definition leaper_step :: "int \<Rightarrow> int \<Rightarrow> Square \<Rightarrow> Bitboard \<Rightarrow> Bitboard" where
  "leaper_step fileOffset rankOffset from attacks =
    (let newSquare = from + fileOffset + 8 * rankOffset in
     if newSquare \<ge> SQ_A1 \<and> newSquare \<le> SQ_H8
        \<and> \<bar>file_of newSquare - file_of from\<bar> = \<bar>fileOffset\<bar>
        \<and> \<bar>rank_of newSquare - rank_of from\<bar> = \<bar>rankOffset\<bar>
     then attacks OR SquareBB newSquare else attacks)"

fun offsets_loop ::
  "bool \<Rightarrow> (int \<times> int) list \<Rightarrow> Square \<Rightarrow> Bitboard \<Rightarrow> Bitboard \<Rightarrow> Bitboard option" where
  "offsets_loop rider [] from occupied attacks = Some attacks"
| "offsets_loop rider ((fo, ro) # os) from occupied attacks =
    (if rider then
       (case rider_walk fo ro occupied from attacks of
          None \<Rightarrow> None
        | Some a \<Rightarrow> offsets_loop rider os from occupied a)
     else offsets_loop rider os from occupied (leaper_step fo ro from attacks))"

fun patterns_loop ::
  "BetzaPattern list \<Rightarrow> Square \<Rightarrow> Bitboard \<Rightarrow> bool \<Rightarrow> Bitboard \<Rightarrow> Bitboard option" where
  "patterns_loop [] from occupied capturesOnly attacks = Some attacks"
| "patterns_loop (p # ps) from occupied capturesOnly attacks =
    (if capturesOnly \<and> quietOnly p then patterns_loop ps from occupied capturesOnly attacks
     else if \<not> capturesOnly \<and> captureOnly p then patterns_loop ps from occupied capturesOnly attacks
     else (case offsets_loop (isRider p) (offsets p) from occupied attacks of
             None \<Rightarrow> None
           | Some a \<Rightarrow> patterns_loop ps from occupied capturesOnly a))"

definition getAttacks :: "Registry \<Rightarrow> PieceType \<Rightarrow> Square \<Rightarrow> Bitboard \<Rightarrow> bool \<Rightarrow> Bitboard option" where
  "getAttacks reg pt from occupied capturesOnly =
    (case reg pt of
       None \<Rightarrow> Some 0
     | Some piece \<Rightarrow> patterns_loop (patterns piece) from occupied capturesOnly 0)"

text \<open>The global helper: \<^verbatim>\<open>capturesOnly\<close> takes its default \<^verbatim>\<open>false\<close>.\<close>

definition attacks_from_betza :: "Registry \<Rightarrow> Color \<Rightarrow> PieceType \<Rightarrow> Square \<Rightarrow> Bitboard \<Rightarrow> Bitboard option" where
  "attacks_from_betza reg c pt from occupied = getAttacks reg pt from occupied False"

section \<open>Position and StateInfo (position.h)\<close>

text \<open>
  The arrays of the class are total functions of their index.  The chain of
  \<^verbatim>\<open>previous\<close> pointers is the list \<open>previous\<close> of the states below the current
  one, the nearest first.  \<^verbatim>\<open>thisThread\<close> only counts nodes and is left out.
\<close>

record StateInfo =
  pawnKey :: Key
  materialKey :: Key
  nonPawnMaterial :: "Color \<Rightarrow> Val"
  castlingRights :: int
  rule50 :: int
  pliesFromNull :: int
  psq :: Score
  epSquare :: Square
  key :: Key
  checkersBB :: Bitboard
  capturedPiece :: Piece
  gate :: Gate
  capturedGate :: Gate
  removedGatingType :: PieceType
  blockersForKing :: "Color \<Rightarrow> Bitboard"
  pinners :: "Color \<Rightarrow> Bitboard"
  checkSquares :: "PieceType \<Rightarrow> Bitboard"

record Position =
  board :: "Square \<Rightarrow> Piece"
  gateBoard :: "Square \<Rightarrow> Gate"
  gatingPieces :: "Gate \<Rightarrow> PieceType"
  gatingSquares :: "Color \<Rightarrow> Gate \<Rightarrow> Square"
  byTypeBB :: "PieceType \<Rightarrow> Bitboard"
  byColorBB :: "Color \<Rightarrow> Bitboard"
  gateBB :: Bitboard
  pieceCount :: "Piece \<Rightarrow> int"
  gateCount :: Gate
  setupCount :: "Color \<Rightarrow> Gate"
  pieceList :: "Piece \<Rightarrow> int \<Rightarrow> Square"
  index :: "Square \<Rightarrow> int"
  castlingRightsMask :: "Square \<Rightarrow> int"
  castlingRookSquare :: "int \<Rightarrow> Square"
  castlingPath :: "int \<Rightarrow> Bitboard"
  gamePly :: int
  sideToMove :: Color
  st :: StateInfo
  previous :: "StateInfo list"
  chess960 :: bool

definition pieces :: "Position \<Rightarrow> Bitboard" where
  "pieces P = byTypeBB P ALL_PIECES"

definition pieces_c :: "Position \<Rightarrow> Color \<Rightarrow> Bitboard" where
  "pieces_c P c = byColorBB P c"

definition pieces_cp :: "Position \<Rightarrow> Color \<Rightarrow> PieceType \<Rightarrow> Bitboard" where
  "pieces_cp P c pt = byColorBB P c AND byTypeBB P pt"

definition piece_on :: "Position \<Rightarrow> Square \<Rightarrow> Piece" where
  "piece_on P s = board P s"

definition empty_sq :: "Position \<Rightarrow> Square \<Rightarrow> bool" where
  "empty_sq P s = (board P s = NO_PIECE)"

definition gates :: "Position \<Rightarrow> Bitboard" where
  "gates P = gateBB P"

definition gating_piece :: "Position \<Rightarrow> Gate \<Rightarrow> PieceType" where
  "gating_piece P g = gatingPieces P g"

definition gating_piece_sq :: "Position \<Rightarrow> Square \<Rightarrow> PieceType" where
  "gating_piece_sq P s = gating_piece P (gateBoard P s)"


text \<open>
  \<^verbatim>\<open>Position::attacks_from_betza(c, pt, s)\<close> calls the global helper with three
  arguments, so \<^verbatim>\<open>occupied\<close> takes the default 0 of its declaration in betza.h.
\<close>

definition Position_attacks_from_betza ::
  "Registry \<Rightarrow> Position \<Rightarrow> Color \<Rightarrow> PieceType \<Rightarrow> Square \<Rightarrow> Bitboard option" where
  "Position_attacks_from_betza reg P c pt s = attacks_from_betza reg c pt s 0"

text \<open>
  \<^verbatim>\<open>BetzaManager::init\<close>.  The identifiers \<^verbatim>\<open>CUSTOM_PIECE_1\<close> .. \<^verbatim>\<open>CUSTOM_PIECE_9\<close>
  are declared in types.h; \<open>cid k\<close> stands for \<^verbatim>\<open>CUSTOM_PIECE_k\<close>.
\<close>

definition BetzaManager_init ::
  "(PieceType \<Rightarrow> bool) \<Rightarrow> (PieceType \<Rightarrow> string) \<Rightarrow> (nat \<Rightarrow> PieceType) \<Rightarrow> Registry" where
  "BetzaManager_init is_custom dflt cid =
    foldl (\<lambda>reg (k, n, nm). addCustomPiece is_custom dflt reg (cid k) n nm) Map.empty
      [(1, ''N'', ''Knight-like''), (2, ''K'', ''King-like''), (3, ''R'', ''Rook-like''),
       (4, ''B'', ''Bishop-like''), (5, ''Q'', ''Queen-like''), (6, ''mWcF'', ''Pawn-like''),
       (7, ''WF'', ''Wazir-Ferz''), (8, ''RN'', ''Amazon-like''),
       (9, ''HW'', ''Three-Leaper-Wazir'')]"

section \<open>Tables and moves\<close>

text \<open>
  The Zobrist keys are filled from a random generator, and the piece-square tables, the
  piece values and the inline attack lookups of bitboard.h are defined outside the
  sources: the functions below take them as the record \<open>T\<close> (\<open>attacks_bb\<close> is the
  lookup by colour and piece type, \<open>attacks_bb_pt\<close> the template \<^verbatim>\<open>attacks_bb<Pt>\<close>).
  So are the two enumeration bounds \<^verbatim>\<open>KING\<close> and \<^verbatim>\<open>GATE_NB\<close>.  A table indexed by a
  piece type where it is declared over pieces reads the entry of the white piece.
\<close>

record Tables =
  Zobrist_psq :: "Piece \<Rightarrow> Square \<Rightarrow> Key"
  Zobrist_psq_gate :: "Piece \<Rightarrow> File \<Rightarrow> Key"
  Zobrist_inhand :: "PieceType \<Rightarrow> Gate \<Rightarrow> Key"
  Zobrist_enpassant :: "File \<Rightarrow> Key"
  Zobrist_castling :: "int \<Rightarrow> Key"
  Zobrist_side :: Key
  Zobrist_noPawns :: Key
  PSQT_psq :: "Piece \<Rightarrow> Square \<Rightarrow> Score"
  PSQT_psq_gate :: "Piece \<Rightarrow> File \<Rightarrow> Score"
  PieceValueMG :: "Piece \<Rightarrow> Val"
  attacks_bb :: "Color \<Rightarrow> PieceType \<Rightarrow> Square \<Rightarrow> Bitboard \<Rightarrow> Bitboard"
  attacks_bb_pt :: "PieceType \<Rightarrow> Square \<Rightarrow> Bitboard \<Rightarrow> Bitboard"
  between_bb :: "Square \<Rightarrow> Square \<Rightarrow> Bitboard"
  KING :: PieceType
  GATE_NB :: int

text \<open>
  A move is the packed 16-bit value of types.h; the model keeps its four components.
  \<^verbatim>\<open>promotion_type\<close> and \<^verbatim>\<open>gating_type\<close> read the same piece-type payload.
\<close>

datatype MoveType = NORMAL | PROMOTION | ENPASSANT | CASTLING
  | PROMOTION_LEFT | PROMOTION_RIGHT | PROMOTION_STRAIGHT
  | SET_GATING_TYPE | PUT_GATING_PIECE

record Move =
  from_sq :: Square
  to_sq :: Square
  move_type :: MoveType
  payload :: PieceType

definition make :: "MoveType \<Rightarrow> Square \<Rightarrow> Square \<Rightarrow> PieceType \<Rightarrow> Move" where
  "make t from to pt = \<lparr>from_sq = from, to_sq = to, move_type = t, payload = pt\<rparr>"

definition make_move :: "Square \<Rightarrow> Square \<Rightarrow> Move" where
  "make_move from to = make NORMAL from to NO_PIECE_TYPE"

text \<open>
  \<^verbatim>\<open>type_of(m)\<close>, as \<^verbatim>\<open>position.cpp\<close> reads it: the move generator tags a promotion
  \<^verbatim>\<open>PROMOTION_LEFT\<close>, \<^verbatim>\<open>PROMOTION_RIGHT\<close> or \<^verbatim>\<open>PROMOTION_STRAIGHT\<close> by its direction,
  while \<^verbatim>\<open>do_move\<close>, \<^verbatim>\<open>undo_move\<close> and the switch of \<^verbatim>\<open>gives_check\<close> (whose default
  case asserts false) know \<^verbatim>\<open>PROMOTION\<close> only, so the three tags read as \<^verbatim>\<open>PROMOTION\<close>
  there.  A comparison with another tag is not changed by this and reads \<open>move_type\<close>.
\<close>

definition type_of_move :: "Move \<Rightarrow> MoveType" where
  "type_of_move m =
    (if move_type m = PROMOTION_LEFT \<or> move_type m = PROMOTION_RIGHT
        \<or> move_type m = PROMOTION_STRAIGHT
     then PROMOTION else move_type m)"

definition promotion_type :: "Move \<Rightarrow> PieceType" where "promotion_type m = payload m"
definition gating_type :: "Move \<Rightarrow> PieceType" where "gating_type m = payload m"

section \<open>Bit scans\<close>

text \<open>
  \<^verbatim>\<open>lsb\<close> is the index of the lowest set bit (the source asserts a nonzero argument;
  the model answers 64 for 0), \<^verbatim>\<open>pop_lsb\<close> clears it with \<^verbatim>\<open>b &= b - 1\<close>.  A loop
  \<^verbatim>\<open>while (b) { s = pop_lsb(&b); ... }\<close> visits the squares of \<open>squares_of b\<close> in order.
\<close>

definition lsb :: "Bitboard \<Rightarrow> Square" where
  "lsb b = int (length (takeWhile (\<lambda>i. \<not> bit b i) [0..<64]))"

definition more_than_one :: "Bitboard \<Rightarrow> bool" where
  "more_than_one b = (b AND (b - 1) \<noteq> 0)"

function squares_of :: "Bitboard \<Rightarrow> Square list" where
  "squares_of b = (if b = 0 then [] else lsb b # squares_of (b AND (b - 1)))"
  by pat_completeness auto
termination
proof (relation "measure unat")
  show "wf (measure (unat :: Bitboard \<Rightarrow> nat))" by simp
next
  fix b :: Bitboard
  assume nz: "b \<noteq> 0"
  have "b AND (b - 1) \<le> b - 1" by (rule word_and_le1)
  also have "b - 1 < b" using nz by (simp add: word_less_nat_alt unat_minus_one)
      (metis Suc_pred less_imp_diff_less not_less_eq unat_gt_0)
  finally show "(b AND (b - 1), b) \<in> measure unat"
    by (simp add: word_less_nat_alt)
qed

declare squares_of.simps [simp del]

section \<open>Board and gate primitives (position.h)\<close>

definition put_piece :: "Position \<Rightarrow> Piece \<Rightarrow> Square \<Rightarrow> Position" where
  "put_piece P pc s =
    (let bt1 = (byTypeBB P)(ALL_PIECES := byTypeBB P ALL_PIECES OR SquareBB s);
         bt2 = bt1(type_of pc := bt1 (type_of pc) OR SquareBB s);
         i = pieceCount P pc;
         cnt1 = (pieceCount P)(pc := i + 1);
         ap = make_piece (color_of pc) ALL_PIECES
     in P\<lparr>board := (board P)(s := pc),
          byTypeBB := bt2,
          byColorBB := (byColorBB P)(color_of pc := byColorBB P (color_of pc) OR SquareBB s),
          index := (index P)(s := i),
          pieceList := (pieceList P)(pc := (pieceList P pc)(i := s)),
          pieceCount := cnt1(ap := cnt1 ap + 1)\<rparr>)"

text \<open>\<^verbatim>\<open>remove_piece\<close> leaves \<^verbatim>\<open>board[s]\<close> as it is, as the source does.\<close>

definition remove_piece :: "Position \<Rightarrow> Piece \<Rightarrow> Square \<Rightarrow> Position" where
  "remove_piece P pc s =
    (let bt1 = (byTypeBB P)(ALL_PIECES := byTypeBB P ALL_PIECES XOR SquareBB s);
         bt2 = bt1(type_of pc := bt1 (type_of pc) XOR SquareBB s);
         n = pieceCount P pc - 1;
         cnt1 = (pieceCount P)(pc := n);
         lastSquare = pieceList P pc n;
         idx1 = (index P)(lastSquare := index P s);
         pl1 = (pieceList P pc)(idx1 lastSquare := lastSquare);
         pl2 = pl1(n := SQ_NONE);
         ap = make_piece (color_of pc) ALL_PIECES
     in P\<lparr>byTypeBB := bt2,
          byColorBB := (byColorBB P)(color_of pc := byColorBB P (color_of pc) XOR SquareBB s),
          index := idx1,
          pieceList := (pieceList P)(pc := pl2),
          pieceCount := cnt1(ap := cnt1 ap - 1)\<rparr>)"

definition move_piece :: "Position \<Rightarrow> Piece \<Rightarrow> Square \<Rightarrow> Square \<Rightarrow> Position" where
  "move_piece P pc from to =
    (let fromTo = SquareBB from XOR SquareBB to;
         bt1 = (byTypeBB P)(ALL_PIECES := byTypeBB P ALL_PIECES XOR fromTo);
         bt2 = bt1(type_of pc := bt1 (type_of pc) XOR fromTo);
         b1 = (board P)(from := NO_PIECE);
         idx1 = (index P)(to := index P from)
     in P\<lparr>byTypeBB := bt2,
          byColorBB := (byColorBB P)(color_of pc := byColorBB P (color_of pc) XOR fromTo),
          board := b1(to := pc),
          index := idx1,
          pieceList := (pieceList P)(pc := (pieceList P pc)(idx1 to := to))\<rparr>)"

definition set_gating_type :: "Position \<Rightarrow> PieceType \<Rightarrow> Position" where
  "set_gating_type P pt =
    (let g = gateCount P + 1
     in P\<lparr>gateCount := g, gatingPieces := (gatingPieces P)(g := pt)\<rparr>)"

definition unset_gating_type :: "Position \<Rightarrow> Position" where
  "unset_gating_type P =
    P\<lparr>gatingPieces := (gatingPieces P)(gateCount P := NO_PIECE_TYPE),
      gateCount := gateCount P - 1\<rparr>"

definition add_gate :: "Position \<Rightarrow> Color \<Rightarrow> Square \<Rightarrow> Gate \<Rightarrow> Position" where
  "add_gate P c s g =
    P\<lparr>gateBoard := (gateBoard P)(s := g),
      gatingSquares := (gatingSquares P)(c := (gatingSquares P c)(g := s)),
      gateBB := gateBB P OR SquareBB s\<rparr>"

definition remove_gate :: "Position \<Rightarrow> Color \<Rightarrow> Square \<Rightarrow> Gate \<Rightarrow> Position" where
  "remove_gate P c s g =
    P\<lparr>gateBoard := (gateBoard P)(s := NO_GATE),
      gatingSquares := (gatingSquares P)(c := (gatingSquares P c)(g := SQ_NONE)),
      gateBB := gateBB P XOR SquareBB s\<rparr>"

definition put_gating_piece :: "Position \<Rightarrow> Color \<Rightarrow> Square \<Rightarrow> Position" where
  "put_gating_piece P c s =
    (let g = setupCount P c + 1
     in add_gate (P\<lparr>setupCount := (setupCount P)(c := g)\<rparr>) c s g)"

definition remove_gating_piece :: "Position \<Rightarrow> Color \<Rightarrow> Square \<Rightarrow> Position" where
  "remove_gating_piece P c s =
    (let g = setupCount P c
     in remove_gate (P\<lparr>setupCount := (setupCount P)(c := g - 1)\<rparr>) c s g)"

definition capture_gate :: "Position \<Rightarrow> Color \<Rightarrow> Square \<Rightarrow> Position" where
  "capture_gate P c s =
    (let P1 = P\<lparr>st := (st P)\<lparr>capturedGate := gateBoard P s\<rparr>\<rparr>
     in remove_gate P1 c s (gateBoard P1 s))"

definition uncapture_gate :: "Position \<Rightarrow> Color \<Rightarrow> Square \<Rightarrow> Position" where
  "uncapture_gate P c s = add_gate P c s (capturedGate (st P))"

definition gate_piece :: "Position \<Rightarrow> Color \<Rightarrow> Square \<Rightarrow> Position" where
  "gate_piece P c s =
    (let P1 = P\<lparr>st := (st P)\<lparr>gate := gateBoard P s\<rparr>\<rparr>;
         P2 = put_piece P1 (make_piece c (gatingPieces P1 (gateBoard P1 s))) s
     in remove_gate P2 c s (gateBoard P2 s))"

definition ungate_piece :: "Position \<Rightarrow> Color \<Rightarrow> Square \<Rightarrow> Position" where
  "ungate_piece P c s =
    (let P1 = add_gate P c s (gate (st P))
     in remove_piece P1 (make_piece c (gatingPieces P1 (gate (st P1)))) s)"

definition square_of :: "Position \<Rightarrow> Color \<Rightarrow> PieceType \<Rightarrow> Square" where
  "square_of P c pt = pieceList P (make_piece c pt) 0"



text \<open>\<^verbatim>\<open>GamePhase\<close> and \<^verbatim>\<open>Position::game_phase\<close>.\<close>

datatype GamePhase = GAMEPHASE_SELECTION | GAMEPHASE_PLACING | GAMEPHASE_PLAYING

definition game_phase :: "Tables \<Rightarrow> Position \<Rightarrow> GamePhase" where
  "game_phase T P =
    (if gateCount P < GATE_NB T - 1 then GAMEPHASE_SELECTION
     else if setupCount P (sideToMove P) < GATE_NB T - 1 then GAMEPHASE_PLACING
     else GAMEPHASE_PLAYING)"

section \<open>Attack queries and check information (position.cpp)\<close>

definition attackers_to_occ :: "Tables \<Rightarrow> Position \<Rightarrow> Square \<Rightarrow> Bitboard \<Rightarrow> Bitboard" where
  "attackers_to_occ T P s occupied =
    foldl (\<lambda>b c. foldl (\<lambda>b pt. b OR (attacks_bb T (flip_color c) pt s occupied AND pieces_cp P c pt))
                     b [PAWN ..< Suc (KING T)])
          0 [WHITE, BLACK]"

definition attackers_to :: "Tables \<Rightarrow> Position \<Rightarrow> Square \<Rightarrow> Bitboard" where
  "attackers_to T P s = attackers_to_occ T P s (byTypeBB P ALL_PIECES)"

definition attacks_from :: "Tables \<Rightarrow> Position \<Rightarrow> Color \<Rightarrow> PieceType \<Rightarrow> Square \<Rightarrow> Bitboard" where
  "attacks_from T P c pt s = attacks_bb T c pt s (byTypeBB P ALL_PIECES)"

text \<open>\<^verbatim>\<open>slider_blockers\<close> returns the blockers and, by reference, the pinners.\<close>

definition slider_blockers ::
  "Tables \<Rightarrow> Position \<Rightarrow> Bitboard \<Rightarrow> Square \<Rightarrow> Bitboard \<times> Bitboard" where
  "slider_blockers T P sliders s =
    (let snipers = sliders AND attackers_to_occ T P s 0 AND NOT (attackers_to T P s)
     in foldl (\<lambda>(blockers, pins) sniperSq.
                 let b = between_bb T s sniperSq AND pieces P in
                 if b \<noteq> 0 \<and> \<not> more_than_one b
                 then (blockers OR b,
                       if b AND pieces_c P (color_of (piece_on P s)) \<noteq> 0
                       then pins OR SquareBB sniperSq else pins)
                 else (blockers, pins))
              (0, 0) (squares_of snipers))"

definition set_check_info :: "Tables \<Rightarrow> Position \<Rightarrow> StateInfo \<Rightarrow> StateInfo" where
  "set_check_info T P si =
    (let (bw, pb) = slider_blockers T P (pieces_c P BLACK) (square_of P WHITE (KING T));
         (bb, pw) = slider_blockers T P (pieces_c P WHITE) (square_of P BLACK (KING T));
         them = flip_color (sideToMove P);
         ksq = square_of P them (KING T)
     in si\<lparr>blockersForKing := (\<lambda>c. case c of WHITE \<Rightarrow> bw | BLACK \<Rightarrow> bb),
           pinners := (\<lambda>c. case c of WHITE \<Rightarrow> pw | BLACK \<Rightarrow> pb),
           checkSquares := (\<lambda>pt. if pt = KING T then 0
                                  else if PAWN \<le> pt \<and> pt < KING T then attacks_from T P them pt ksq
                                  else checkSquares si pt)\<rparr>)"

section \<open>do_move and undo_move (position.cpp)\<close>

text \<open>
  \<^verbatim>\<open>do_castling<Do>\<close> changes \<^verbatim>\<open>to\<close>, \<^verbatim>\<open>rfrom\<close>, \<^verbatim>\<open>rto\<close> and the key \<^verbatim>\<open>k\<close> through
  references: the model returns them with the position.
\<close>

definition do_castling ::
  "Tables \<Rightarrow> bool \<Rightarrow> Color \<Rightarrow> Square \<Rightarrow> Square \<Rightarrow> Key \<Rightarrow> Position
     \<Rightarrow> Position \<times> Square \<times> Square \<times> Square \<times> Key" where
  "do_castling T Do us from to0 k P =
    (let kingSide = (to0 > from);
         rfrom = to0;
         rto = relative_square us (if kingSide then SQ_F1 else SQ_D1);
         to = relative_square us (if kingSide then SQ_G1 else SQ_C1);
         P1 = (if \<not> Do \<and> pieces P AND (SquareBB from OR SquareBB rfrom) \<noteq> 0
               then (let s = (if pieces P AND SquareBB from \<noteq> 0 then from else rfrom) in
                     if s \<noteq> to \<and> s \<noteq> rto then ungate_piece P us s
                     else if capturedGate (st P) > NO_GATE then uncapture_gate P us s
                     else P)
               else P);
         P2 = remove_piece P1 (make_piece us (KING T)) (if Do then from else to);
         P3 = remove_piece P2 (make_piece us ROOK) (if Do then rfrom else rto);
         b1 = (board P3)((if Do then rfrom else rto) := NO_PIECE);
         P4 = P3\<lparr>board := b1((if Do then from else to) := NO_PIECE)\<rparr>;
         P5 = put_piece P4 (make_piece us (KING T)) (if Do then to else from);
         P6 = put_piece P5 (make_piece us ROOK) (if Do then rto else rfrom)
     in if Do \<and> gateBB P6 AND (SquareBB from OR SquareBB rfrom) \<noteq> 0
        then (let s = (if gateBB P6 AND SquareBB from \<noteq> 0 then from else rfrom);
                  gated_piece = make_piece us (gating_piece_sq P6 s)
              in if s \<noteq> to \<and> s \<noteq> rto
                 then (let P7 = P6\<lparr>st := (st P6)\<lparr>psq := psq (st P6) + (PSQT_psq T gated_piece s
                                         - PSQT_psq_gate T gated_piece (file_of s))\<rparr>\<rparr>;
                           k' = k XOR (Zobrist_psq T gated_piece s
                                        XOR Zobrist_psq_gate T gated_piece (file_of s))
                       in (gate_piece P7 us s, to, rfrom, rto, k'))
                 else (let P7 = P6\<lparr>st := (st P6)\<lparr>psq := psq (st P6)
                                         - PSQT_psq_gate T gated_piece (file_of s)\<rparr>\<rparr>;
                           k' = k XOR Zobrist_psq_gate T gated_piece (file_of s)
                       in (capture_gate P7 us s, to, rfrom, rto, k')))
        else (P6\<lparr>st := (st P6)\<lparr>capturedGate := NO_GATE\<rparr>\<rparr>, to, rfrom, rto, k))"

definition upd_st :: "(StateInfo \<Rightarrow> StateInfo) \<Rightarrow> Position \<Rightarrow> Position" where
  "upd_st f P = P\<lparr>st := f (st P)\<rparr>"

text \<open>
  The \<^verbatim>\<open>memcpy\<close> up to \<^verbatim>\<open>offsetof(StateInfo, key)\<close>: the first eight fields of the
  caller's \<^verbatim>\<open>newSt\<close> are overwritten, the others keep what the caller left in them.
\<close>

definition copy_prefix :: "StateInfo \<Rightarrow> StateInfo \<Rightarrow> StateInfo" where
  "copy_prefix newSt old =
    newSt\<lparr>pawnKey := pawnKey old, materialKey := materialKey old,
          nonPawnMaterial := nonPawnMaterial old, castlingRights := castlingRights old,
          rule50 := rule50 old, pliesFromNull := pliesFromNull old, psq := psq old,
          epSquare := epSquare old\<rparr>"

definition do_set_gating_type :: "Tables \<Rightarrow> Move \<Rightarrow> Key \<Rightarrow> Position \<Rightarrow> Position \<times> Key" where
  "do_set_gating_type T m k P =
    (if gateCount P = NO_GATE \<or> gating_type m \<noteq> gatingPieces P (gateCount P)
     then (let P1 = set_gating_type P (gating_type m);
               P2 = upd_st (\<lambda>s. s\<lparr>removedGatingType := NO_PIECE_TYPE\<rparr>) P1
           in (P2, k XOR Zobrist_inhand T (gating_type m) (gateCount P2)))
     else (let k' = k XOR (Zobrist_inhand T (gating_type m) (gateCount P)
                       XOR Zobrist_inhand T CANNON (gateCount P)
                       XOR Zobrist_inhand T LEOPARD (gateCount P + 1));
               P1 = unset_gating_type P;
               P2 = set_gating_type P1 CANNON;
               P3 = set_gating_type P2 LEOPARD
           in (upd_st (\<lambda>s. s\<lparr>removedGatingType := gating_type m\<rparr>) P3, k')))"

definition do_put_gating_piece :: "Tables \<Rightarrow> Move \<Rightarrow> Key \<Rightarrow> Position \<Rightarrow> Position \<times> Key" where
  "do_put_gating_piece T m k P =
    (let us = sideToMove P;
         P1 = put_gating_piece P us (to_sq m);
         gp = make_piece us (gating_type m);
         P2 = upd_st (\<lambda>s. s\<lparr>psq := psq s + PSQT_psq_gate T gp (file_of (to_sq m))\<rparr>) P1
     in (P2, k XOR Zobrist_psq_gate T gp (file_of (to_sq m))))"

text \<open>The capture block of \<^verbatim>\<open>do_move\<close> (\<^verbatim>\<open>if (captured) { ... }\<close>).\<close>

definition do_capture ::
  "Tables \<Rightarrow> Move \<Rightarrow> Color \<Rightarrow> Piece \<Rightarrow> Square \<Rightarrow> Key \<Rightarrow> Position \<Rightarrow> Position \<times> Key" where
  "do_capture T m us captured to k P =
    (let them = flip_color us;
         ep = (type_of captured = PAWN \<and> move_type m = ENPASSANT);
         capsq = (if ep then to - pawn_push us else to);
         P1 = (if type_of captured = PAWN
               then (let Pa = (if ep then P\<lparr>board := (board P)(capsq := NO_PIECE)\<rparr> else P)
                     in upd_st (\<lambda>s. s\<lparr>pawnKey := pawnKey s XOR Zobrist_psq T captured capsq\<rparr>) Pa)
               else upd_st (\<lambda>s. s\<lparr>nonPawnMaterial := (nonPawnMaterial s)
                       (them := nonPawnMaterial s them - PieceValueMG T captured)\<rparr>) P);
         P2 = remove_piece P1 captured capsq;
         (P3, k1) = (if gateBB P2 AND SquareBB capsq \<noteq> 0
                     then (let gp = make_piece (flip_color us) (gating_piece_sq P2 capsq);
                               Pa = upd_st (\<lambda>s. s\<lparr>psq := psq s - PSQT_psq_gate T gp (file_of capsq)\<rparr>) P2
                           in (capture_gate Pa them capsq,
                               k XOR Zobrist_psq_gate T gp (file_of capsq)))
                     else (upd_st (\<lambda>s. s\<lparr>capturedGate := NO_GATE\<rparr>) P2, k));
         k2 = k1 XOR Zobrist_psq T captured capsq;
         P4 = upd_st (\<lambda>s. s\<lparr>materialKey := materialKey s
                              XOR Zobrist_psq T captured (pieceCount P3 captured)\<rparr>) P3;
         P5 = upd_st (\<lambda>s. s\<lparr>psq := psq s - PSQT_psq T captured capsq\<rparr>) P4
     in (upd_st (\<lambda>s. s\<lparr>rule50 := 0\<rparr>) P5, k2))"

text \<open>Resetting the en-passant square and updating the castling rights.\<close>

definition do_reset_ep :: "Tables \<Rightarrow> Key \<Rightarrow> Position \<Rightarrow> Position \<times> Key" where
  "do_reset_ep T k P =
    (if epSquare (st P) \<noteq> SQ_NONE
     then (upd_st (\<lambda>s. s\<lparr>epSquare := SQ_NONE\<rparr>) P,
           k XOR Zobrist_enpassant T (file_of (epSquare (st P))))
     else (P, k))"

definition do_castling_rights :: "Tables \<Rightarrow> Square \<Rightarrow> Square \<Rightarrow> Key \<Rightarrow> Position \<Rightarrow> Position \<times> Key" where
  "do_castling_rights T from to k P =
    (let cr = castlingRightsMask P from OR castlingRightsMask P to
     in if castlingRights (st P) \<noteq> 0 \<and> cr \<noteq> 0
        then (upd_st (\<lambda>s. s\<lparr>castlingRights := castlingRights s AND NOT cr\<rparr>) P,
              k XOR Zobrist_castling T (castlingRights (st P) AND cr))
        else (P, k))"

text \<open>Moving the piece and gating (\<^verbatim>\<open>if (type_of(m) != CASTLING) { ... }\<close>).\<close>

definition do_move_and_gate ::
  "Tables \<Rightarrow> Move \<Rightarrow> Color \<Rightarrow> Piece \<Rightarrow> Square \<Rightarrow> Square \<Rightarrow> Key \<Rightarrow> Position \<Rightarrow> Position \<times> Key" where
  "do_move_and_gate T m us pc from to k P =
    (if move_type m \<noteq> CASTLING
     then (let P1 = move_piece P pc from to
           in if gateBB P1 AND SquareBB from \<noteq> 0
              then (let gated_piece = make_piece us (gating_piece_sq P1 from);
                        P2 = upd_st (\<lambda>s. s\<lparr>psq := psq s + (PSQT_psq T gated_piece from
                                 - PSQT_psq_gate T gated_piece (file_of from))\<rparr>) P1;
                        k' = k XOR (Zobrist_psq T gated_piece from
                                     XOR Zobrist_psq_gate T gated_piece (file_of from))
                    in (gate_piece P2 us from, k'))
              else (P1, k))
     else (P, k))"

text \<open>The pawn block (\<^verbatim>\<open>if (type_of(pc) == PAWN) { ... }\<close>).\<close>

definition do_pawn ::
  "Tables \<Rightarrow> Move \<Rightarrow> Color \<Rightarrow> Piece \<Rightarrow> Square \<Rightarrow> Square \<Rightarrow> Key \<Rightarrow> Position \<Rightarrow> Position \<times> Key" where
  "do_pawn T m us pc from to k P =
    (if type_of pc = PAWN
     then (let them = flip_color us;
               (P1, k1) =
                 (if to XOR from = 16
                     \<and> attacks_from T P us PAWN (to - pawn_push us) AND pieces_cp P them PAWN \<noteq> 0
                  then (upd_st (\<lambda>s. s\<lparr>epSquare := to - pawn_push us\<rparr>) P,
                        k XOR Zobrist_enpassant T (file_of (to - pawn_push us)))
                  else if type_of_move m = PROMOTION
                  then (let promotion = make_piece us (promotion_type m);
                            Pa = remove_piece P pc to;
                            Pb = put_piece Pa promotion to;
                            k' = k XOR (Zobrist_psq T pc to XOR Zobrist_psq T promotion to);
                            Pc = upd_st (\<lambda>s. s\<lparr>pawnKey := pawnKey s XOR Zobrist_psq T pc to\<rparr>) Pb;
                            Pd = upd_st (\<lambda>s. s\<lparr>materialKey := materialKey s
                                   XOR (Zobrist_psq T promotion (pieceCount Pc promotion - 1)
                                        XOR Zobrist_psq T pc (pieceCount Pc pc))\<rparr>) Pc;
                            Pe = upd_st (\<lambda>s. s\<lparr>psq := psq s + (PSQT_psq T promotion to
                                                                  - PSQT_psq T pc to)\<rparr>) Pd
                        in (upd_st (\<lambda>s. s\<lparr>nonPawnMaterial := (nonPawnMaterial s)
                                 (us := nonPawnMaterial s us + PieceValueMG T promotion)\<rparr>) Pe, k'))
                  else (P, k));
               P2 = upd_st (\<lambda>s. s\<lparr>pawnKey := pawnKey s
                                    XOR (Zobrist_psq T pc from XOR Zobrist_psq T pc to)\<rparr>) P1
           in (upd_st (\<lambda>s. s\<lparr>rule50 := 0\<rparr>) P2, k1))
     else (P, k))"

text \<open>
  The \<^verbatim>\<open>default\<close> branch of the switch: a move of the playing phase, in four
  definitions.  The first runs it up to the update of the key for the squares of the
  moved piece, the second adds the reset of the en-passant square and the update of
  the castling rights, the third the move of the piece with the gating; each returns
  the position and the key reached there with the moved piece, the destination
  (which castling changes) and the captured piece.
\<close>

definition do_board_move_pre00 ::
  "Tables \<Rightarrow> Move \<Rightarrow> Key \<Rightarrow> Position \<Rightarrow> Position \<times> Key \<times> Piece \<times> Square \<times> Piece" where
  "do_board_move_pre00 T m k P =
    (let P1 = upd_st (\<lambda>s. s\<lparr>rule50 := rule50 s + 1, pliesFromNull := pliesFromNull s + 1\<rparr>)
                (P\<lparr>gamePly := gamePly P + 1\<rparr>);
         us = sideToMove P;
         them = flip_color us;
         from = from_sq m;
         to0 = to_sq m;
         pc = piece_on P1 from;
         captured0 = (if move_type m = ENPASSANT then make_piece them PAWN else piece_on P1 to0);
         (P2, to, k1, captured) =
           (if move_type m = CASTLING
            then (let (Pa, to', rfrom, rto, k') = do_castling T True us from to0 k P1;
                      Pb = upd_st (\<lambda>s. s\<lparr>psq := psq s + (PSQT_psq T captured0 rto
                                                          - PSQT_psq T captured0 rfrom)\<rparr>) Pa
                  in (Pb, to', k' XOR (Zobrist_psq T captured0 rfrom XOR Zobrist_psq T captured0 rto),
                      NO_PIECE))
            else (P1, to0, k, captured0));
         (P3, k2) = (if captured \<noteq> NO_PIECE then do_capture T m us captured to k1 P2 else (P2, k1));
         k3 = k2 XOR (Zobrist_psq T pc from XOR Zobrist_psq T pc to)
     in (P3, k3, pc, to, captured))"

definition do_board_move_pre0 ::
  "Tables \<Rightarrow> Move \<Rightarrow> Key \<Rightarrow> Position \<Rightarrow> Position \<times> Key \<times> Piece \<times> Square \<times> Piece" where
  "do_board_move_pre0 T m k P =
    (let (P3, k3, pc, to, captured) = do_board_move_pre00 T m k P;
         (P4, k4) = do_reset_ep T k3 P3;
         (P5, k5) = do_castling_rights T (from_sq m) to k4 P4
     in (P5, k5, pc, to, captured))"

definition do_board_move_pre ::
  "Tables \<Rightarrow> Move \<Rightarrow> Key \<Rightarrow> Position \<Rightarrow> Position \<times> Key \<times> Piece \<times> Square \<times> Piece" where
  "do_board_move_pre T m k P =
    (let (P5, k5, pc, to, captured) = do_board_move_pre0 T m k P;
         (P6, k6) = do_move_and_gate T m (sideToMove P) pc (from_sq m) to k5 P5
     in (P6, k6, pc, to, captured))"

definition do_board_move :: "Tables \<Rightarrow> Move \<Rightarrow> Key \<Rightarrow> Position \<Rightarrow> Position \<times> Key" where
  "do_board_move T m k P =
    (let (P6, k6, pc, to, captured) = do_board_move_pre T m k P;
         us = sideToMove P;
         from = from_sq m;
         (P7, k7) = do_pawn T m us pc from to k6 P6;
         P8 = upd_st (\<lambda>s. s\<lparr>psq := psq s + (PSQT_psq T pc to - PSQT_psq T pc from)\<rparr>) P7
     in (upd_st (\<lambda>s. s\<lparr>capturedPiece := captured\<rparr>) P8, k7))"

definition do_move :: "Tables \<Rightarrow> Move \<Rightarrow> StateInfo \<Rightarrow> bool \<Rightarrow> Position \<Rightarrow> Position" where
  "do_move T m newSt givesCheck P =
    (let k = key (st P) XOR Zobrist_side T;
         P0 = P\<lparr>previous := st P # previous P, st := copy_prefix newSt (st P)\<rparr>;
         us = sideToMove P0;
         them = flip_color us;
         (P1, k1) = (case move_type m of
                       SET_GATING_TYPE \<Rightarrow> do_set_gating_type T m k P0
                     | PUT_GATING_PIECE \<Rightarrow> do_put_gating_piece T m k P0
                     | _ \<Rightarrow> do_board_move T m k P0);
         P2 = upd_st (\<lambda>s. s\<lparr>checkersBB := (if givesCheck
                 then attackers_to T P1 (square_of P1 them (KING T)) AND pieces_c P1 us
                 else 0)\<rparr>) P1;
         P3 = upd_st (\<lambda>s. s\<lparr>key := k1\<rparr>) P2;
         P4 = P3\<lparr>sideToMove := flip_color (sideToMove P3)\<rparr>
     in upd_st (set_check_info T P4) P4)"

text \<open>
  \<^verbatim>\<open>undo_move\<close> ends with \<^verbatim>\<open>st = st->previous\<close>; without a previous state the model
  answers \<open>None\<close>.
\<close>

definition undo_board_move :: "Tables \<Rightarrow> Move \<Rightarrow> Color \<Rightarrow> Position \<Rightarrow> Position" where
  "undo_board_move T m us P =
    (let from = from_sq m;
         to = to_sq m;
         pc0 = piece_on P to;
         (P1, pc) = (if type_of_move m = PROMOTION
                     then (let Pa = remove_piece P pc0 to;
                               pw = make_piece us PAWN
                           in (put_piece Pa pw to, pw))
                     else (P, pc0));
         P2 = (if move_type m = CASTLING
               then fst (do_castling T False us from to (key (st P1)) P1)
               else (let Pa = (if pieces P1 AND SquareBB from \<noteq> 0
                               then ungate_piece P1 us from else P1);
                         Pb = move_piece Pa pc to from
                     in if capturedPiece (st Pb) \<noteq> NO_PIECE
                        then (let capsq = (if move_type m = ENPASSANT then to - pawn_push us else to);
                                  Pc = put_piece Pb (capturedPiece (st Pb)) capsq
                              in if capturedGate (st Pc) > NO_GATE
                                 then uncapture_gate Pc (flip_color us) capsq else Pc)
                        else Pb))
     in P2\<lparr>gamePly := gamePly P2 - 1\<rparr>)"

definition undo_move :: "Tables \<Rightarrow> Move \<Rightarrow> Position \<Rightarrow> Position option" where
  "undo_move T m P =
    (let P1 = P\<lparr>sideToMove := flip_color (sideToMove P)\<rparr>;
         us = sideToMove P1;
         P2 = (case move_type m of
                 SET_GATING_TYPE \<Rightarrow>
                   (let Pa = unset_gating_type P1
                    in if removedGatingType (st Pa) \<noteq> NO_PIECE_TYPE
                       then set_gating_type (unset_gating_type Pa) (removedGatingType (st Pa))
                       else Pa)
               | PUT_GATING_PIECE \<Rightarrow> remove_gating_piece P1 us (to_sq m)
               | _ \<Rightarrow> undo_board_move T m us P1)
     in case previous P2 of
          [] \<Rightarrow> None
        | s # ss \<Rightarrow> Some (P2\<lparr>st := s, previous := ss\<rparr>))"

section \<open>Move generation for the setup phases (movegen.cpp)\<close>


definition generate_PLACEMENTS :: "Tables \<Rightarrow> Position \<Rightarrow> Move list" where
  "generate_PLACEMENTS T P =
    (let us = sideToMove P;
         b0 = (if us = WHITE then Rank1BB else Rank8BB) AND NOT (gates P);
         b = (if pieces_cp P us (KING T) AND gates P \<noteq> 0 then b0 AND NOT (pieces_cp P us ROOK)
              else if pieces_cp P us ROOK AND gates P \<noteq> 0 then b0 AND NOT (pieces_cp P us (KING T))
              else b0);
         pt = gating_piece P (setupCount P us + 1)
     in map (\<lambda>s. make PUT_GATING_PIECE SQ_A1 s pt) (squares_of b))"

section \<open>Move generation for the playing phase (movegen.cpp)\<close>

























section \<open>Static exchange evaluation (position.cpp)\<close>

text \<open>
  \<^verbatim>\<open>min_attacker<Pt>\<close> recurses through the piece types from \<^verbatim>\<open>PAWN\<close> up to \<^verbatim>\<open>KING\<close>;
  the list argument holds the types still to try, and the empty list is the \<^verbatim>\<open>KING\<close>
  specialisation.  It returns the victim with the updated \<^verbatim>\<open>occupied\<close> and \<^verbatim>\<open>attackers\<close>.
\<close>

fun min_attacker ::
  "Tables \<Rightarrow> Position \<Rightarrow> PieceType list \<Rightarrow> Square \<Rightarrow> Bitboard \<Rightarrow> Bitboard \<Rightarrow> Bitboard
     \<Rightarrow> PieceType \<times> Bitboard \<times> Bitboard" where
  "min_attacker T P [] to stmAttackers occupied attackers = (KING T, occupied, attackers)"
| "min_attacker T P (Pt # rest) to stmAttackers occupied attackers =
    (let b = stmAttackers AND byTypeBB P Pt in
     if b = 0 then min_attacker T P rest to stmAttackers occupied attackers
     else (let occupied1 = occupied XOR SquareBB (lsb b);
               a1 = (if Pt = PAWN \<or> Pt = BISHOP \<or> Pt = QUEEN
                     then attackers OR (attacks_bb_pt T BISHOP to occupied1
                                          AND (byTypeBB P BISHOP OR byTypeBB P QUEEN))
                     else attackers);
               a2 = (if Pt = ROOK \<or> Pt = QUEEN
                     then a1 OR (attacks_bb_pt T ROOK to occupied1
                                   AND (byTypeBB P ROOK OR byTypeBB P QUEEN))
                     else a1)
           in (Pt, occupied1, a2 AND occupied1)))"

text \<open>
  The exchange loop of \<^verbatim>\<open>see_ge\<close> is \<^verbatim>\<open>while (true)\<close>; it is a partial function, and
  not returning is \<open>None\<close>.  The value is the \<^verbatim>\<open>us != stm\<close> returned after the loop.
\<close>

partial_function (option) see_loop ::
  "Tables \<Rightarrow> Position \<Rightarrow> Square \<Rightarrow> Color \<Rightarrow> Color \<Rightarrow> Val \<Rightarrow> Bitboard \<Rightarrow> Bitboard \<Rightarrow> bool option" where
  "see_loop T P to us stm balance occupied attackers =
    (let sa0 = attackers AND pieces_c P stm;
         stmAttackers = (if pinners (st P) (flip_color stm) AND NOT occupied = 0
                         then sa0 AND NOT (blockersForKing (st P) stm) else sa0)
     in if stmAttackers = 0 then Some (us \<noteq> stm)
        else (case min_attacker T P [PAWN ..< KING T] to stmAttackers occupied attackers of
                (nextVictim, occupied1, attackers1) \<Rightarrow>
                  (let stm1 = flip_color stm;
                       balance1 = - balance - 1 - PieceValueMG T (WHITE, nextVictim)
                   in if balance1 \<ge> 0
                      then (if nextVictim = KING T \<and> attackers1 AND pieces_c P stm1 \<noteq> 0
                            then Some (us \<noteq> flip_color stm1) else Some (us \<noteq> stm1))
                      else see_loop T P to us stm1 balance1 occupied1 attackers1)))"

declare see_loop.simps [code]

text \<open>
  \<^verbatim>\<open>PieceValue[MG]\<close> is indexed by a piece; indexed by the piece type of a gating piece
  it reads the entry of the white piece of that type.
\<close>

definition see_ge :: "Tables \<Rightarrow> Position \<Rightarrow> Move \<Rightarrow> Val \<Rightarrow> bool option" where
  "see_ge T P m threshold =
    (if move_type m \<noteq> NORMAL then Some (0 \<ge> threshold)
     else (let from = from_sq m;
               to = to_sq m;
               nextVictim = type_of (piece_on P from);
               us = color_of (piece_on P from);
               stm = flip_color us;
               balance0 = PieceValueMG T (piece_on P to) - threshold;
               balance = (if gateBB P AND SquareBB to \<noteq> 0
                          then balance0 + PieceValueMG T (WHITE, gating_piece_sq P to)
                          else balance0)
           in if balance < 0 then Some False
              else (let balance1 = balance - PieceValueMG T (WHITE, nextVictim)
                    in if balance1 \<ge> 0 then Some True
                       else (let occupied = pieces P XOR SquareBB from XOR SquareBB to;
                                 attackers = attackers_to_occ T P to occupied AND occupied
                             in see_loop T P to us stm balance1 occupied attackers))))"

section \<open>The en-passant field of a FEN (position.cpp)\<close>

text \<open>
  Step 4 of \<^verbatim>\<open>Position::set\<close>.  \<open>col\<close> and \<open>row\<close> are the two characters the stream
  gives, \<open>None\<close> when the extraction fails; the second is extracted only when the first
  is a file letter.
\<close>

definition set_en_passant :: "Tables \<Rightarrow> char option \<Rightarrow> char option \<Rightarrow> Position \<Rightarrow> Position" where
  "set_en_passant T col row P =
    (case col of
       None \<Rightarrow> upd_st (\<lambda>s. s\<lparr>epSquare := SQ_NONE\<rparr>) P
     | Some c \<Rightarrow>
        if \<not> (of_char c \<ge> (of_char CHR ''a'' :: nat) \<and> of_char c \<le> (of_char CHR ''h'' :: nat))
        then upd_st (\<lambda>s. s\<lparr>epSquare := SQ_NONE\<rparr>) P
        else (case row of
                None \<Rightarrow> upd_st (\<lambda>s. s\<lparr>epSquare := SQ_NONE\<rparr>) P
              | Some r \<Rightarrow>
                 if \<not> (r = CHR ''3'' \<or> r = CHR ''6'')
                 then upd_st (\<lambda>s. s\<lparr>epSquare := SQ_NONE\<rparr>) P
                 else (let ep = make_square (int (of_char c) - int (of_char CHR ''a''))
                                            (int (of_char r) - int (of_char CHR ''1''));
                           P1 = upd_st (\<lambda>s. s\<lparr>epSquare := ep\<rparr>) P;
                           stm = sideToMove P1
                       in if attackers_to T P1 (epSquare (st P1)) AND pieces_cp P1 stm PAWN = 0
                             \<or> pieces_cp P1 (flip_color stm) PAWN
                                  AND SquareBB (epSquare (st P1) + pawn_push (flip_color stm)) = 0
                          then upd_st (\<lambda>s. s\<lparr>epSquare := SQ_NONE\<rparr>) P1
                          else P1)))"


text \<open>
  The shape of a pawn move of the side \<open>us\<close>: one square forward, two squares forward
  from the second rank, or one square diagonally forward onto an adjacent file.
\<close>

definition pawn_shaped :: "Color \<Rightarrow> Square \<Rightarrow> Square \<Rightarrow> bool" where
  "pawn_shaped us from to =
    (0 \<le> from \<and> from < 64 \<and> 0 \<le> to \<and> to < 64
     \<and> (to = from + pawn_push us
        \<or> (to = from + 2 * pawn_push us \<and> rank_of from = relative_rank us 1)
        \<or> (to = from + pawn_push us - 1 \<and> file_of from > 0)
        \<or> (to = from + pawn_push us + 1 \<and> file_of from < 7)))"

section \<open>Sample data\<close>

text \<open>
  The state and the position right after the two \<^verbatim>\<open>memset\<close> calls and the \<^verbatim>\<open>fill_n\<close>
  at the start of \<^verbatim>\<open>Position::set\<close>, and tables in which every key, score and attack
  set is zero (the side key is 1), with \<^verbatim>\<open>KING\<close> = 16 and \<^verbatim>\<open>GATE_NB\<close> = 3.
  \<open>placing_position\<close> has the two kings on e1 and e8, the catalog \<^verbatim>\<open>CANNON\<close>,
  \<^verbatim>\<open>LEOPARD\<close>, no gating piece placed, and White to move.
\<close>

definition zero_state :: StateInfo where
  "zero_state = \<lparr>pawnKey = 0, materialKey = 0, nonPawnMaterial = (\<lambda>_. 0), castlingRights = 0,
     rule50 = 0, pliesFromNull = 0, psq = 0, epSquare = 0, key = 0, checkersBB = 0,
     capturedPiece = NO_PIECE, gate = NO_GATE, capturedGate = NO_GATE,
     removedGatingType = NO_PIECE_TYPE, blockersForKing = (\<lambda>_. 0), pinners = (\<lambda>_. 0),
     checkSquares = (\<lambda>_. 0)\<rparr>"

definition cleared_position :: Position where
  "cleared_position = \<lparr>board = (\<lambda>_. NO_PIECE), gateBoard = (\<lambda>_. NO_GATE),
     gatingPieces = (\<lambda>_. NO_PIECE_TYPE), gatingSquares = (\<lambda>_ _. 0),
     byTypeBB = (\<lambda>_. 0), byColorBB = (\<lambda>_. 0), gateBB = 0, pieceCount = (\<lambda>_. 0),
     gateCount = NO_GATE, setupCount = (\<lambda>_. NO_GATE), pieceList = (\<lambda>_ _. SQ_NONE),
     index = (\<lambda>_. 0), castlingRightsMask = (\<lambda>_. 0), castlingRookSquare = (\<lambda>_. 0),
     castlingPath = (\<lambda>_. 0), gamePly = 0, sideToMove = WHITE, st = zero_state,
     previous = [], chess960 = False\<rparr>"

definition plain_tables :: Tables where
  "plain_tables = \<lparr>Zobrist_psq = (\<lambda>_ _. 0), Zobrist_psq_gate = (\<lambda>_ _. 0),
     Zobrist_inhand = (\<lambda>_ _. 0), Zobrist_enpassant = (\<lambda>_. 0), Zobrist_castling = (\<lambda>_. 0),
     Zobrist_side = 1, Zobrist_noPawns = 0, PSQT_psq = (\<lambda>_ _. 0), PSQT_psq_gate = (\<lambda>_ _. 0),
     PieceValueMG = (\<lambda>_. 0), attacks_bb = (\<lambda>_ _ _ _. 0),
     attacks_bb_pt = (\<lambda>_ _ _. 0), between_bb = (\<lambda>_ _. 0),
     KING = 16, GATE_NB = 3\<rparr>"

definition placing_position :: Position where
  "placing_position =
     set_gating_type (set_gating_type
       (put_piece (put_piece cleared_position (WHITE, KING plain_tables) 4)
          (BLACK, KING plain_tables) 60) CANNON) LEOPARD"

text \<open>
  \<open>pawn_attacks\<close> is the entry \<^verbatim>\<open>PseudoAttacks[c][PAWN][s]\<close> as the step loop of
  \<^verbatim>\<open>Bitboards::init\<close> fills it from the steps 7 and 9; \<open>pawn_tables\<close> answers pawn
  attacks with it.  In \<open>push_position\<close> White is to move with the king on e1 and a pawn
  on e2, Black has the king on e8 and a pawn on d4; \<open>pushed_position\<close> is the same
  with the white pawn on e4 and Black to move.
\<close>

definition pawn_attacks :: "Color \<Rightarrow> Square \<Rightarrow> Bitboard" where
  "pawn_attacks c s =
    foldl (\<lambda>b step. let to = s + (if c = WHITE then step else - step)
                     in if is_ok to \<and> distance s to < 4 then b OR SquareBB to else b)
          0 [7, 9]"

definition pawn_tables :: Tables where
  "pawn_tables = plain_tables\<lparr>attacks_bb := (\<lambda>c pt s occ. if pt = PAWN then pawn_attacks c s else 0)\<rparr>"

definition push_position :: Position where
  "push_position =
     upd_st (\<lambda>s. s\<lparr>epSquare := SQ_NONE\<rparr>)
       (put_piece (put_piece (put_piece (put_piece cleared_position
          (WHITE, KING plain_tables) 4) (BLACK, KING plain_tables) 60) (WHITE, PAWN) 12)
          (BLACK, PAWN) 27)"

definition pushed_position :: Position where
  "pushed_position =
     (put_piece (put_piece (put_piece (put_piece cleared_position
          (WHITE, KING plain_tables) 4) (BLACK, KING plain_tables) 60) (WHITE, PAWN) 28)
          (BLACK, PAWN) 27)\<lparr>sideToMove := BLACK\<rparr>"

text \<open>
  \<open>castle_position\<close>: White to move with the king on f1, a rook on h1 and a knight on
  b1, the black king on e8; the catalog is \<^verbatim>\<open>CANNON\<close>, \<^verbatim>\<open>LEOPARD\<close>; White's gating
  homes are h1 and b1, Black's two gating pieces are gone (\<^verbatim>\<open>SQ_NONE\<close>); White may
  castle king side with the rook on h1.  It is the position of the FEN
  \<^verbatim>\<open>4k3/8/8/8/8/8/8/1N3K1R[ChLbc-l-] w K - 0 1\<close>.
\<close>

definition castle_position :: Position where
  "castle_position =
    (let P1 = put_piece (put_piece (put_piece (put_piece cleared_position
                (BLACK, KING plain_tables) 60) (WHITE, KNIGHT) 1) (WHITE, KING plain_tables) 5)
                (WHITE, ROOK) 7;
         P2 = set_gating_type (set_gating_type P1 CANNON) LEOPARD;
         P3 = put_gating_piece (put_gating_piece P2 WHITE 7) WHITE 1;
         P4 = P3\<lparr>setupCount := (setupCount P3)(BLACK := 2),
                 gatingSquares := (gatingSquares P3)(BLACK := (gatingSquares P3 BLACK)
                                     (1 := SQ_NONE, 2 := SQ_NONE))\<rparr>
     in P4\<lparr>castlingRightsMask := (\<lambda>_. 0)(5 := 1, 7 := 1),
           castlingRookSquare := (\<lambda>_. 0)(1 := 7),
           castlingPath := (\<lambda>_. 0)(1 := SquareBB 6),
           st := (st P4)\<lparr>castlingRights := 1, epSquare := SQ_NONE\<rparr>\<rparr>)"

text \<open>
  \<open>value_tables\<close> values a piece at 100 times the number of its type (a rook 400, a
  cannon 600).  In \<open>gated_rook_position\<close> a white rook stands on a1 and a black rook on
  a8, and a8 is the gating home of Black's first gating piece, a cannon; in
  \<open>plain_rook_position\<close> a8 is no gating home.
\<close>

definition value_tables :: Tables where
  "value_tables = plain_tables\<lparr>PieceValueMG := (\<lambda>pc. int (snd pc) * 100)\<rparr>"

definition plain_rook_position :: Position where
  "plain_rook_position =
    (put_piece (put_piece cleared_position (WHITE, ROOK) 0) (BLACK, ROOK) 56)
      \<lparr>gatingPieces := (\<lambda>_. NO_PIECE_TYPE)(1 := CANNON)\<rparr>"

definition gated_rook_position :: Position where
  "gated_rook_position = add_gate plain_rook_position BLACK 56 1"

text \<open>
  \<open>ep_tables\<close> is \<open>pawn_tables\<close> with the en-passant key of the file \<open>f\<close> set to \<open>f + 2\<close>;
  \<open>second_push_position\<close> is \<open>push_position\<close> with the en-passant square b6 left by
  the move before.
\<close>

definition ep_tables :: Tables where
  "ep_tables = pawn_tables\<lparr>Zobrist_enpassant := (\<lambda>f. word_of_int (f + 2))\<rparr>"

definition second_push_position :: Position where
  "second_push_position = upd_st (\<lambda>s. s\<lparr>epSquare := 41\<rparr>) push_position"





section \<open>Basic facts\<close>

lemmas piece_type_defs = NO_PIECE_TYPE_def ALL_PIECES_def PAWN_def KNIGHT_def BISHOP_def
  ROOK_def QUEEN_def CANNON_def LEOPARD_def ARCHBISHOP_def CHANCELLOR_def

lemmas square_defs = SQ_A1_def SQ_H1_def SQ_H8_def SQ_NONE_def SQ_C1_def SQ_D1_def
  SQ_F1_def SQ_G1_def

lemma squares_of_0 [simp]: "squares_of 0 = []"
  by (simp add: squares_of.simps)

lemma type_of_move_NORMAL [simp]: "move_type m = NORMAL \<Longrightarrow> type_of_move m = NORMAL"
  by (simp add: type_of_move_def)

lemma flip_flip [simp]: "flip_color (flip_color c) = c"
  by (cases c) simp_all

lemma upd_st_fields [simp]:
  "gateCount (upd_st f P) = gateCount P"
  "gatingPieces (upd_st f P) = gatingPieces P"
  "sideToMove (upd_st f P) = sideToMove P"
  "previous (upd_st f P) = previous P"
  "st (upd_st f P) = f (st P)"
  by (simp_all add: upd_st_def)

lemma set_check_info_removed [simp]:
  "removedGatingType (set_check_info T P s) = removedGatingType s"
  by (simp add: set_check_info_def Let_def split: prod.splits)

subsection \<open>Bit scans\<close>

lemma takeWhile_upt_first:
  assumes "i < n" "\<not> P i" "\<And>j. j < i \<Longrightarrow> P j"
  shows "takeWhile P [0..<n] = [0..<i]"
proof -
  have "[0..<n] = [0..<i] @ i # [Suc i..<n]"
    using assms(1) by (metis le_add1 less_imp_add_positive plus_nat.add_0 upt_add_eq_append upt_conv_Cons)
  moreover have "takeWhile P ([0..<i] @ i # [Suc i..<n]) = [0..<i] @ takeWhile P (i # [Suc i..<n])"
    by (rule takeWhile_append2) (use assms in auto)
  ultimately show ?thesis using assms(2) by simp
qed

lemma word64_nonzero_bit:
  assumes "(b :: Bitboard) \<noteq> 0"
  shows "\<exists>k<64. bit b k \<and> (\<forall>j<k. \<not> bit b j)"
proof -
  from assms obtain n where n: "bit b n" by (auto simp: bit_eq_iff)
  define k where "k = (LEAST n. bit b n)"
  have k: "bit b k" unfolding k_def using n by (rule LeastI)
  have "k < 64" using k by (auto dest: bit_imp_le_length)
  moreover have "\<not> bit b j" if "j < k" for j
    using that not_less_Least unfolding k_def by blast
  ultimately show ?thesis using k by blast
qed

lemma lsb_eq:
  assumes "k < 64" "bit (b :: Bitboard) k" "\<And>j. j < k \<Longrightarrow> \<not> bit b j"
  shows "lsb b = int k"
  unfolding lsb_def using takeWhile_upt_first [of k 64 "\<lambda>i. \<not> bit b i"] assms by simp

lemma clear_lsb_bit:
  assumes "bit (b :: Bitboard) k" "\<And>j. j < k \<Longrightarrow> \<not> bit b j"
  shows "bit (b AND (b - 1)) n \<longleftrightarrow> bit b n \<and> n \<noteq> k"
proof -
  define c where "c = push_bit (Suc k) (drop_bit (Suc k) b)"
  have k64: "k < 64" using assms(1) by (auto dest: bit_imp_le_length)
  have cbit: "bit c n \<longleftrightarrow> Suc k \<le> n \<and> bit b n" for n
  proof -
    define m where "m = Suc k"
    have "bit (push_bit m (drop_bit m b)) n \<longleftrightarrow> m \<le> n \<and> bit b n"
      by (auto simp: bit_push_bit_iff bit_drop_bit_eq dest: bit_imp_le_length)
    then show ?thesis by (simp add: c_def m_def)
  qed
  have b: "b = c + 2 ^ k"
  proof -
    have "b = c OR 2 ^ k"
    proof (rule bit_word_eqI)
      fix n assume "n < LENGTH(64)"
      show "bit b n = bit (c OR 2 ^ k) n"
      proof (cases "n < k")
        case True then show ?thesis using assms(2) by (simp add: bit_or_iff cbit bit_exp_iff)
      next
        case False then show ?thesis using assms(1) k64
          by (cases "n = k") (auto simp: bit_or_iff cbit bit_exp_iff)
      qed
    qed
    also have "\<dots> = c + 2 ^ k"
      by (rule disjunctive_add [symmetric]) (auto simp: cbit bit_exp_iff)
    finally show ?thesis .
  qed
  have "b - 1 = c + mask k"
    by (simp add: b mask_eq_exp_minus_1)
  also have "\<dots> = c OR mask k"
    by (rule disjunctive_add) (auto simp: cbit bit_mask_iff)
  finally have b1: "b - 1 = c OR mask k" .
  show ?thesis
    unfolding b1
    using assms(2) [of n] k64
    by (auto simp: bit_and_iff bit_or_iff bit_mask_iff cbit)
qed


lemma squares_of_filter: "squares_of b = map int (filter (bit b) [0..<64])"
proof (induction b rule: squares_of.induct)
  case (1 b)
  show ?case
  proof (cases "b = 0")
    case True
    then show ?thesis by simp
  next
    case False
    then obtain k where k: "k < 64" "bit b k" "\<And>j. j < k \<Longrightarrow> \<not> bit b j"
      using word64_nonzero_bit [of b] by blast
    define b' where "b' = b AND (b - 1)"
    have b': "bit b' n \<longleftrightarrow> bit b n \<and> n \<noteq> k" for n
      unfolding b'_def using k(2,3) by (rule clear_lsb_bit)
    have split: "[0..<64] = [0..<k] @ k # [Suc k..<64]"
      using k(1) by (metis le_add1 less_imp_add_positive plus_nat.add_0 upt_add_eq_append upt_conv_Cons)
    have lo: "filter (bit b) [0..<k] = []" "filter (bit b') [0..<k] = []"
      using k(3) by (auto simp: filter_empty_conv b')
    have hi: "filter (bit b) [Suc k..<64] = filter (bit b') [Suc k..<64]"
      by (rule filter_cong) (auto simp: b')
    have "filter (bit b) [0..<64] = k # filter (bit b') [0..<64]"
      unfolding split using k(2) by (simp add: lo hi b')
    moreover have "squares_of b = lsb b # squares_of b'"
      using False by (subst squares_of.simps) (simp add: b'_def)
    moreover have "squares_of b' = map int (filter (bit b') [0..<64])"
      unfolding b'_def using False by (rule "1.IH")
    ultimately show ?thesis using lsb_eq [OF k] by simp
  qed
qed

lemma distinct_squares_of: "distinct (squares_of b)"
  by (simp add: squares_of_filter distinct_map)

lemma set_squares_of: "set (squares_of b) = {s. 0 \<le> s \<and> s < 64 \<and> bit b (nat s)}"
proof (rule set_eqI)
  fix s :: int
  show "s \<in> set (squares_of b) \<longleftrightarrow> s \<in> {s. 0 \<le> s \<and> s < 64 \<and> bit b (nat s)}"
  proof
    assume "s \<in> set (squares_of b)"
    then obtain n where "s = int n" "n < 64" "bit b n"
      by (auto simp: squares_of_filter)
    then show "s \<in> {s. 0 \<le> s \<and> s < 64 \<and> bit b (nat s)}" by simp
  next
    assume "s \<in> {s. 0 \<le> s \<and> s < 64 \<and> bit b (nat s)}"
    then have "nat s < 64" "bit b (nat s)" "s = int (nat s)" by auto
    then show "s \<in> set (squares_of b)"
      unfolding squares_of_filter by (metis (no_types, lifting) atLeastLessThan_iff imageI image_set mem_Collect_eq set_filter set_upt zero_le)
  qed
qed

section \<open>Custom-piece attacks through the position\<close>

lemma rook_like_registered:
  "is_custom pt \<Longrightarrow>
   addCustomPiece is_custom dflt reg pt ''R'' nm pt =
     Some \<lparr>name = (if nm = [] then dflt pt else nm),
           patterns = [mk_pattern ''R'' rook_offsets True False False]\<rparr>"
  by (simp add: addCustomPiece_def parse_notation_def)

lemma rook_like_from_a1_empty:
  "patterns_loop [mk_pattern ''R'' rook_offsets True False False] SQ_A1 0 False 0
     = Some 0x01010101010101FE"
  by (simp add: mk_pattern_def rook_offsets_def rider_walk.simps square_defs file_of_def
      SquareBB_def Let_def)

lemma rook_like_from_a1_blocked:
  "patterns_loop [mk_pattern ''R'' rook_offsets True False False] SQ_A1 0x101 False 0
     = Some 0x1FE"
  by (simp add: mk_pattern_def rook_offsets_def rider_walk.simps square_defs file_of_def
      SquareBB_def Let_def)

text \<open>
  C2 (the code at a failing input).  A custom piece registered with the rider pattern
  \<^verbatim>\<open>R\<close> stands on a1.  Whatever the position is, and so also with a2 occupied,
  \<^verbatim>\<open>Position::attacks_from_betza\<close> answers the whole a-file and the whole first rank:
  the ray does not stop at the first occupied square, because the occupancy handed
  to \<^verbatim>\<open>getAttacks\<close> is the default 0 and not the position's.  With the occupancy
  \<open>{a1, a2}\<close> handed over, \<^verbatim>\<open>getAttacks\<close> itself stops at a2.
\<close>

theorem C2_attacks_from_betza_ignores_occupancy:
  assumes "is_custom pt"
  shows "Position_attacks_from_betza (addCustomPiece is_custom dflt reg pt ''R'' nm) P c pt SQ_A1
           = Some 0x01010101010101FE
       \<and> attacks_from_betza (addCustomPiece is_custom dflt reg pt ''R'' nm) c pt SQ_A1 0x101
           = Some 0x1FE"
  using assms
  by (simp add: Position_attacks_from_betza_def attacks_from_betza_def getAttacks_def
      rook_like_registered rook_like_from_a1_empty rook_like_from_a1_blocked
      del: patterns_loop.simps)

theorem C2_attacks_from_betza_witness:
  "pieces (put_piece (put_piece cleared_position (WHITE, 20) 0) (WHITE, PAWN) 8) = 0x101
   \<and> Position_attacks_from_betza
        (addCustomPiece (\<lambda>_. True) (\<lambda>_. ''Custom'') Map.empty 20 ''R'' ''Rook-like'')
        (put_piece (put_piece cleared_position (WHITE, 20) 0) (WHITE, PAWN) 8) WHITE 20 SQ_A1
       = Some 0x01010101010101FE
   \<and> attacks_from_betza
        (addCustomPiece (\<lambda>_. True) (\<lambda>_. ''Custom'') Map.empty 20 ''R'' ''Rook-like'')
        WHITE 20 SQ_A1 0x101 = Some 0x1FE"
proof -
  have "pieces (put_piece (put_piece cleared_position (WHITE, 20) 0) (WHITE, PAWN) 8) = 0x101"
    by (simp add: pieces_def put_piece_def cleared_position_def Let_def SquareBB_def
        piece_type_defs type_of_def color_of_def make_piece_def)
  then show ?thesis
    using C2_attacks_from_betza_ignores_occupancy
      [of "\<lambda>_. True" 20 "\<lambda>_. ''Custom''" Map.empty "''Rook-like''"
          "put_piece (put_piece cleared_position (WHITE, 20) 0) (WHITE, PAWN) 8" WHITE]
    by simp
qed

section \<open>Selecting gating types\<close>

lemma do_move_SET:
  assumes "move_type m = SET_GATING_TYPE"
  shows "do_move T m s g P =
           P\<lparr>gateCount := gateCount P + 1,
             gatingPieces := (if gateCount P = NO_GATE \<or> gating_type m \<noteq> gatingPieces P (gateCount P)
                              then (gatingPieces P)(gateCount P + 1 := gating_type m)
                              else (gatingPieces P)(gateCount P := CANNON, gateCount P + 1 := LEOPARD)),
             sideToMove := flip_color (sideToMove P),
             previous := st P # previous P,
             st := st (do_move T m s g P)\<rparr>"
  using assms
  by (intro Position.equality)
     (simp_all add: do_move_def Let_def do_set_gating_type_def set_gating_type_def
        unset_gating_type_def upd_st_def add.commute)

lemma do_move_SET_removed:
  assumes "move_type m = SET_GATING_TYPE"
  shows "removedGatingType (st (do_move T m s g P)) =
             (if gateCount P = NO_GATE \<or> gating_type m \<noteq> gatingPieces P (gateCount P)
              then NO_PIECE_TYPE else gating_type m)"
  using assms
  by (simp add: do_move_def Let_def do_set_gating_type_def set_gating_type_def
        unset_gating_type_def upd_st_def)

lemma undo_move_SET:
  assumes "move_type m = SET_GATING_TYPE"
  shows "undo_move T m P =
    (case previous P of [] \<Rightarrow> None
     | s # ss \<Rightarrow> Some (
        if removedGatingType (st P) \<noteq> NO_PIECE_TYPE
        then P\<lparr>sideToMove := flip_color (sideToMove P),
               gatingPieces := (gatingPieces P)(gateCount P := NO_PIECE_TYPE,
                                 gateCount P - 1 := NO_PIECE_TYPE,
                                 gateCount P - 1 := removedGatingType (st P)),
               gateCount := gateCount P - 1, st := s, previous := ss\<rparr>
        else P\<lparr>sideToMove := flip_color (sideToMove P),
               gatingPieces := (gatingPieces P)(gateCount P := NO_PIECE_TYPE),
               gateCount := gateCount P - 1, st := s, previous := ss\<rparr>))"
  using assms
  by (simp add: undo_move_def Let_def set_gating_type_def unset_gating_type_def split: list.splits)



lemma two_equal_selections:
  "let m = make SET_GATING_TYPE SQ_A1 SQ_A1 pt;
       P2 = do_move T m s2 g2 (do_move T m s1 g1 cleared_position)
   in gateCount P2 = 2 \<and> gatingPieces P2 1 = CANNON \<and> gatingPieces P2 2 = LEOPARD"
proof -
  define m where "m = make SET_GATING_TYPE SQ_A1 SQ_A1 pt"
  have mt: "move_type m = SET_GATING_TYPE"
    by (simp add: m_def make_def)
  have gt: "gating_type m = pt"
    by (simp add: m_def make_def gating_type_def)
  define Q1 where "Q1 = do_move T m s1 g1 cleared_position"
  have c1: "gateCount Q1 = 1" "gatingPieces Q1 1 = pt"
    unfolding Q1_def
    by (subst do_move_SET [OF mt], simp add: cleared_position_def NO_GATE_def gt)+
  have "gateCount (do_move T m s2 g2 Q1) = 2 \<and> gatingPieces (do_move T m s2 g2 Q1) 1 = CANNON
      \<and> gatingPieces (do_move T m s2 g2 Q1) 2 = LEOPARD"
    by (subst do_move_SET [OF mt], subst (2) do_move_SET [OF mt], subst (3) do_move_SET [OF mt])
       (simp add: c1 gt NO_GATE_def)
  then show ?thesis
    unfolding Let_def m_def [symmetric] Q1_def [symmetric] .
qed

text \<open>
  C4 as stated fails: after \<^verbatim>\<open>ARCHBISHOP\<close> is selected twice from the empty catalog,
  the catalog has two entries and neither of them is \<^verbatim>\<open>ARCHBISHOP\<close>.
\<close>

theorem C4_selected_type_not_kept:
  "gateCount (do_move plain_tables (make SET_GATING_TYPE SQ_A1 SQ_A1 ARCHBISHOP) zero_state False
       (do_move plain_tables (make SET_GATING_TYPE SQ_A1 SQ_A1 ARCHBISHOP) zero_state False
          cleared_position)) = 2
   \<and> gatingPieces (do_move plain_tables (make SET_GATING_TYPE SQ_A1 SQ_A1 ARCHBISHOP) zero_state False
       (do_move plain_tables (make SET_GATING_TYPE SQ_A1 SQ_A1 ARCHBISHOP) zero_state False
          cleared_position)) 1 \<noteq> ARCHBISHOP
   \<and> gatingPieces (do_move plain_tables (make SET_GATING_TYPE SQ_A1 SQ_A1 ARCHBISHOP) zero_state False
       (do_move plain_tables (make SET_GATING_TYPE SQ_A1 SQ_A1 ARCHBISHOP) zero_state False
          cleared_position)) 2 \<noteq> ARCHBISHOP"
  using two_equal_selections [of ARCHBISHOP plain_tables zero_state False zero_state False]
  by (simp add: Let_def piece_type_defs)

text \<open>
  C4 as amended.  From an empty catalog, two \<^verbatim>\<open>set_gating_type\<close> moves selecting the
  same type \<open>pt\<close> leave a catalog of exactly two entries, \<^verbatim>\<open>CANNON\<close> and \<^verbatim>\<open>LEOPARD\<close>:
  the selected type has been taken out again.  The state of the second move records
  \<open>pt\<close> in \<^verbatim>\<open>removedGatingType\<close>, and undoing the two moves gives back the position
  from which they were made, and so the empty catalog.
\<close>

theorem C4_set_gating_type_twice:
  assumes "gateCount P = NO_GATE" and "gatingPieces P = (\<lambda>_. NO_PIECE_TYPE)"
  shows "let m = make SET_GATING_TYPE SQ_A1 SQ_A1 pt;
             P2 = do_move T m s2 g2 (do_move T m s1 g1 P)
         in gateCount P2 = 2
          \<and> gatingPieces P2 = (\<lambda>_. NO_PIECE_TYPE)(1 := CANNON, 2 := LEOPARD)
          \<and> removedGatingType (st P2) = pt
          \<and> (\<exists>P1. undo_move T m P2 = Some P1 \<and> undo_move T m P1 = Some P)"
proof -
  define m where "m = make SET_GATING_TYPE SQ_A1 SQ_A1 pt"
  have mt: "move_type m = SET_GATING_TYPE" and gt: "gating_type m = pt"
    by (simp_all add: m_def make_def gating_type_def)
  define Q1 where "Q1 = do_move T m s1 g1 P"
  define Q2 where "Q2 = do_move T m s2 g2 Q1"
  have q1: "Q1 = P\<lparr>gateCount := 1, gatingPieces := (\<lambda>_. NO_PIECE_TYPE)(1 := pt),
                   sideToMove := flip_color (sideToMove P), previous := st P # previous P,
                   st := st Q1\<rparr>"
    unfolding Q1_def using do_move_SET [OF mt, of T s1 g1 P] assms
    by (simp add: gt NO_GATE_def)
  have r1: "removedGatingType (st Q1) = NO_PIECE_TYPE"
    unfolding Q1_def using assms by (simp add: do_move_SET_removed [OF mt])
  have c1: "gateCount Q1 = 1" "gatingPieces Q1 = (\<lambda>_. NO_PIECE_TYPE)(1 := pt)"
       "previous Q1 = st P # previous P" "sideToMove Q1 = flip_color (sideToMove P)"
    by (subst q1, simp)+
  have q2: "Q2 = Q1\<lparr>gateCount := 2, gatingPieces := (\<lambda>_. NO_PIECE_TYPE)(1 := CANNON, 2 := LEOPARD),
                   sideToMove := sideToMove P, previous := st Q1 # previous Q1,
                   st := st Q2\<rparr>"
    unfolding Q2_def using do_move_SET [OF mt, of T s2 g2 Q1]
    by (simp add: gt NO_GATE_def c1)
  have r2: "removedGatingType (st Q2) = pt"
    unfolding Q2_def by (simp add: do_move_SET_removed [OF mt] c1 gt NO_GATE_def)
  have c2: "gateCount Q2 = 2" "gatingPieces Q2 = (\<lambda>_. NO_PIECE_TYPE)(1 := CANNON, 2 := LEOPARD)"
       "previous Q2 = st Q1 # previous Q1" "sideToMove Q2 = sideToMove P"
    by (subst q2, simp)+
  define U where "U = Q1\<lparr>gatingPieces := (\<lambda>_. NO_PIECE_TYPE)
                          (1 := if pt = NO_PIECE_TYPE then CANNON else pt)\<rparr>"
  have u2: "undo_move T m Q2 = Some U"
  proof -
    have "undo_move T m Q2 = Some (Q2\<lparr>sideToMove := flip_color (sideToMove P),
               gatingPieces := (\<lambda>_. NO_PIECE_TYPE)(1 := if pt = NO_PIECE_TYPE then CANNON else pt),
               gateCount := 1, st := st Q1, previous := previous Q1\<rparr>)"
      by (auto simp: undo_move_SET [OF mt] c2 r2 NO_PIECE_TYPE_def fun_eq_iff
          intro!: Position.equality)
    also have "Q2\<lparr>sideToMove := flip_color (sideToMove P),
               gatingPieces := (\<lambda>_. NO_PIECE_TYPE)(1 := if pt = NO_PIECE_TYPE then CANNON else pt),
               gateCount := 1, st := st Q1, previous := previous Q1\<rparr> = U"
      unfolding U_def by (subst q2, subst (2) q1, subst q1) (simp add: c1)
    finally show ?thesis .
  qed
  have cu: "gateCount U = 1" "previous U = st P # previous P"
       "sideToMove U = flip_color (sideToMove P)" "removedGatingType (st U) = NO_PIECE_TYPE"
       "gatingPieces U = (\<lambda>_. NO_PIECE_TYPE)(1 := if pt = NO_PIECE_TYPE then CANNON else pt)"
    by (simp_all add: U_def c1 r1)
  have u1: "undo_move T m U = Some P"
  proof -
    have "undo_move T m U = Some (U\<lparr>sideToMove := sideToMove P,
               gatingPieces := (\<lambda>_. NO_PIECE_TYPE),
               gateCount := 0, st := st P, previous := previous P\<rparr>)"
      by (auto simp: undo_move_SET [OF mt] cu NO_PIECE_TYPE_def fun_eq_iff
          intro!: Position.equality)
    also have "U\<lparr>sideToMove := sideToMove P,
               gatingPieces := (\<lambda>_. NO_PIECE_TYPE),
               gateCount := 0, st := st P, previous := previous P\<rparr> = P"
      unfolding U_def by (subst q1) (use assms in \<open>simp add: NO_GATE_def\<close>)
    finally show ?thesis .
  qed
  show ?thesis
    unfolding Let_def m_def [symmetric] Q1_def [symmetric] Q2_def [symmetric]
    using c2 r2 u2 u1 by simp
qed

theorem C4_set_gating_type_twice_witness:
  "gateCount cleared_position = NO_GATE \<and> gatingPieces cleared_position = (\<lambda>_. NO_PIECE_TYPE)
   \<and> (let m = make SET_GATING_TYPE SQ_A1 SQ_A1 ARCHBISHOP;
           P2 = do_move plain_tables m zero_state False
                  (do_move plain_tables m zero_state False cleared_position)
       in gateCount P2 = 2
        \<and> gatingPieces P2 = (\<lambda>_. NO_PIECE_TYPE)(1 := CANNON, 2 := LEOPARD)
        \<and> removedGatingType (st P2) = ARCHBISHOP
        \<and> (\<exists>P1. undo_move plain_tables m P2 = Some P1
               \<and> undo_move plain_tables m P1 = Some cleared_position))"
proof -
  have h1: "gateCount cleared_position = NO_GATE"
    and h2: "gatingPieces cleared_position = (\<lambda>_. NO_PIECE_TYPE)"
    by (simp_all add: cleared_position_def)
  show ?thesis
    using h1 h2 C4_set_gating_type_twice [OF h1 h2, of ARCHBISHOP plain_tables zero_state False
        zero_state False]
    by simp
qed

section \<open>Placing the gating pieces\<close>

lemma bit_Rank1BB: "bit Rank1BB n \<longleftrightarrow> n < 8"
proof -
  have e: "Rank1BB = mask 8" by (simp add: Rank1BB_def mask_eq_exp_minus_1)
  show ?thesis unfolding e bit_mask_iff by auto
qed

lemma bit_Rank8BB: "bit Rank8BB n \<longleftrightarrow> 56 \<le> n \<and> n < 64"
proof -
  have e: "Rank8BB = push_bit 56 (mask 8)" by (simp add: Rank8BB_def mask_eq_exp_minus_1 push_bit_eq_mult)
  show ?thesis unfolding e bit_push_bit_iff bit_mask_iff by auto
qed


lemma first_rank_iff:
  "0 \<le> s \<Longrightarrow> s < 64 \<Longrightarrow>
   bit (if us = WHITE then Rank1BB else Rank8BB) (nat s) \<longleftrightarrow> rank_of s = relative_rank us 0"
  by (cases us) (auto simp: bit_Rank1BB bit_Rank8BB rank_of_def relative_rank_def)

lemma placing_position_fields:
  "gateBB placing_position = 0" "sideToMove placing_position = WHITE"
  "setupCount placing_position WHITE = 0" "gateCount placing_position = 2"
  "gatingPieces placing_position 1 = CANNON" "board placing_position 4 = (WHITE, 16)"
  by (simp_all add: placing_position_def set_gating_type_def put_piece_def cleared_position_def
      Let_def plain_tables_def NO_GATE_def)

text \<open>
  C5 as stated fails: in \<open>placing_position\<close>, a position of the placement phase, the
  square e1 is not empty (the white king stands on it) and the generator emits the
  \<^verbatim>\<open>put_gating_piece\<close> move to e1.
\<close>

theorem C5_occupied_square_generated:
  "game_phase plain_tables placing_position = GAMEPHASE_PLACING
   \<and> \<not> empty_sq placing_position 4
   \<and> make PUT_GATING_PIECE SQ_A1 4 CANNON \<in> set (generate_PLACEMENTS plain_tables placing_position)"
proof -
  have "(4 :: int) \<in> set (squares_of Rank1BB)"
    by (simp add: set_squares_of bit_Rank1BB)
  then have "make PUT_GATING_PIECE SQ_A1 4 CANNON
      \<in> set (generate_PLACEMENTS plain_tables placing_position)"
    by (auto simp: generate_PLACEMENTS_def Let_def placing_position_fields gates_def
        gating_piece_def image_iff)
  moreover have "game_phase plain_tables placing_position = GAMEPHASE_PLACING"
    by (simp add: game_phase_def placing_position_fields plain_tables_def)
  moreover have "\<not> empty_sq placing_position 4"
    by (simp add: empty_sq_def placing_position_fields NO_PIECE_def NO_PIECE_TYPE_def)
  ultimately show ?thesis by simp
qed

text \<open>
  C5 as amended.  In the placement phase the generator emits exactly one
  \<^verbatim>\<open>put_gating_piece\<close> move for every square of the moving side's first rank that is not
  yet a gating home, whether the square is empty or not; when the side's king stands on
  a gating home the squares of its rooks are left out, and otherwise, when one of its
  rooks stands on a gating home, the square of its king is left out.  Every such move
  carries the next piece type of the catalog.
\<close>

theorem C5_placements:
  "distinct (generate_PLACEMENTS T P) \<and>
   set (generate_PLACEMENTS T P) =
     (\<lambda>s. make PUT_GATING_PIECE SQ_A1 s (gating_piece P (setupCount P (sideToMove P) + 1))) `
       {s. 0 \<le> s \<and> s < 64 \<and> rank_of s = relative_rank (sideToMove P) 0
            \<and> \<not> bit (gateBB P) (nat s)
            \<and> (if pieces_cp P (sideToMove P) (KING T) AND gateBB P \<noteq> 0
                  then \<not> bit (pieces_cp P (sideToMove P) ROOK) (nat s)
                else if pieces_cp P (sideToMove P) ROOK AND gateBB P \<noteq> 0
                  then \<not> bit (pieces_cp P (sideToMove P) (KING T)) (nat s)
                else True)}"
proof -
  define us where "us = sideToMove P"
  define pt where "pt = gating_piece P (setupCount P us + 1)"
  define kg where "kg \<longleftrightarrow> pieces_cp P us (KING T) AND gateBB P \<noteq> 0"
  define rg where "rg \<longleftrightarrow> pieces_cp P us ROOK AND gateBB P \<noteq> 0"
  define b0 where "b0 = (if us = WHITE then Rank1BB else Rank8BB) AND NOT (gateBB P)"
  define b where "b = (if kg then b0 AND NOT (pieces_cp P us ROOK)
                       else if rg then b0 AND NOT (pieces_cp P us (KING T)) else b0)"
  have gen: "generate_PLACEMENTS T P = map (\<lambda>s. make PUT_GATING_PIECE SQ_A1 s pt) (squares_of b)"
    by (simp add: generate_PLACEMENTS_def Let_def gates_def b_def b0_def kg_def rg_def pt_def us_def)
  have inj: "inj_on (\<lambda>s. make PUT_GATING_PIECE SQ_A1 s pt) A" for A
    by (rule inj_onI) (simp add: make_def)
  have B0: "bit b0 (nat s) \<longleftrightarrow> rank_of s = relative_rank us 0 \<and> \<not> bit (gateBB P) (nat s)"
    if "0 \<le> s" "s < 64" for s
  proof -
    have "nat s < 64" using that by simp
    then show ?thesis
      using first_rank_iff [OF that, of us] by (simp add: b0_def bit_and_iff bit_not_iff)
  qed
  have B: "bit b (nat s) \<longleftrightarrow> rank_of s = relative_rank us 0 \<and> \<not> bit (gateBB P) (nat s)
             \<and> (if kg then \<not> bit (pieces_cp P us ROOK) (nat s)
                else if rg then \<not> bit (pieces_cp P us (KING T)) (nat s) else True)"
    if "0 \<le> s" "s < 64" for s
  proof -
    have "nat s < 64" using that by simp
    then show ?thesis
      using B0 [OF that] by (simp add: b_def bit_and_iff bit_not_iff)
  qed
  have S: "set (squares_of b) =
      {s. 0 \<le> s \<and> s < 64 \<and> rank_of s = relative_rank us 0 \<and> \<not> bit (gateBB P) (nat s)
             \<and> (if kg then \<not> bit (pieces_cp P us ROOK) (nat s)
                else if rg then \<not> bit (pieces_cp P us (KING T)) (nat s) else True)}"
    unfolding set_squares_of using B by blast
  have "distinct (generate_PLACEMENTS T P)"
    unfolding gen by (simp add: distinct_map distinct_squares_of inj)
  moreover have "set (generate_PLACEMENTS T P) = (\<lambda>s. make PUT_GATING_PIECE SQ_A1 s pt) `
      {s. 0 \<le> s \<and> s < 64 \<and> rank_of s = relative_rank us 0 \<and> \<not> bit (gateBB P) (nat s)
             \<and> (if kg then \<not> bit (pieces_cp P us ROOK) (nat s)
                else if rg then \<not> bit (pieces_cp P us (KING T)) (nat s) else True)}"
    unfolding gen by (simp add: S)
  ultimately show ?thesis
    unfolding us_def pt_def kg_def rg_def by simp
qed

theorem C5_placements_witness:
  "make PUT_GATING_PIECE SQ_A1 4 CANNON \<in> set (generate_PLACEMENTS plain_tables placing_position)
   \<and> make PUT_GATING_PIECE SQ_A1 8 CANNON \<notin> set (generate_PLACEMENTS plain_tables placing_position)"
  using C5_placements [of plain_tables placing_position]
  by (simp add: placing_position_fields gating_piece_def image_iff make_def rank_of_def
      relative_rank_def)

section \<open>Static exchange evaluation\<close>

lemma min_attacker_cong:
  "byTypeBB P = byTypeBB Q \<Longrightarrow> min_attacker T P pts to sa occ att = min_attacker T Q pts to sa occ att"
  by (induction pts) (simp_all add: Let_def)

lemma see_loop_Some_cong:
  assumes e: "byTypeBB P = byTypeBB Q" "byColorBB P = byColorBB Q" "st P = st Q"
  shows "see_loop T P to us stm bal occ att = Some y \<Longrightarrow> see_loop T Q to us stm bal occ att = Some y"
proof -
  have "T' = T \<longrightarrow> P' = P \<longrightarrow> see_loop T Q to us stm bal occ att = Some y"
    if "see_loop T' P' to us stm bal occ att = Some y" for T' P'
proof (rule see_loop.raw_induct [where Pa = "\<lambda>x y. case x of (((((((T', P'), to), us), stm), bal), occ), att)
          \<Rightarrow> T' = T \<longrightarrow> P' = P \<longrightarrow> see_loop T Q to us stm bal occ att = Some y", unfolded prod.case, OF _ that], intro impI, goal_cases)
  case (1 f T' P' to us stm bal occ att y)
  note IH = 1(1) [of T P to us, rule_format, OF _ refl refl] and TT = \<open>T' = T\<close> and PP = \<open>P' = P\<close>
  define sa where "sa = (if pinners (st P) (flip_color stm) AND NOT occ = 0
                         then (att AND pieces_c P stm) AND NOT (blockersForKing (st P) stm)
                         else att AND pieces_c P stm)"
  have saQ: "sa = (if pinners (st Q) (flip_color stm) AND NOT occ = 0
                         then (att AND pieces_c Q stm) AND NOT (blockersForKing (st Q) stm)
                         else att AND pieces_c Q stm)"
    by (simp add: sa_def pieces_c_def e)
  obtain nv o1 a1 where ma: "min_attacker T P [PAWN ..< KING T] to sa occ att = (nv, o1, a1)"
    by (cases "min_attacker T P [PAWN ..< KING T] to sa occ att") auto
  have maQ: "min_attacker T Q [PAWN ..< KING T] to sa occ att = (nv, o1, a1)"
    using ma min_attacker_cong [OF e(1)] by simp
  define bal1 where "bal1 = - bal - 1 - PieceValueMG T (WHITE, nv)"
  have body: "(if sa = 0 then Some (us \<noteq> stm)
       else if bal1 \<ge> 0
            then (if nv = KING T \<and> a1 AND pieces_c P (flip_color stm) \<noteq> 0
                  then Some (us \<noteq> flip_color (flip_color stm)) else Some (us \<noteq> flip_color stm))
            else f T P to us (flip_color stm) bal1 o1 a1) = Some y"
    using 1(2) unfolding TT PP Let_def sa_def [symmetric] ma prod.case bal1_def [symmetric]
    by (simp split: if_splits)
  have goal: "see_loop T Q to us stm bal occ att =
      (if sa = 0 then Some (us \<noteq> stm)
       else if bal1 \<ge> 0
            then (if nv = KING T \<and> a1 AND pieces_c Q (flip_color stm) \<noteq> 0
                  then Some (us \<noteq> flip_color (flip_color stm)) else Some (us \<noteq> flip_color stm))
            else see_loop T Q to us (flip_color stm) bal1 o1 a1)"
    apply (subst see_loop.simps)
    unfolding Let_def saQ [symmetric] maQ prod.case bal1_def [symmetric]
    by simp
  show ?case
  proof (cases "sa = 0 \<or> bal1 \<ge> 0")
    case True
    have pcq: "pieces_c Q c = pieces_c P c" for c by (simp add: pieces_c_def e)
    from True show ?thesis using body unfolding goal pcq by (auto split: if_splits)
  next
    case False
    then have "f T P to us (flip_color stm) bal1 o1 a1 = Some y" using body by simp
    then have "see_loop T Q to us (flip_color stm) bal1 o1 a1 = Some y" by (rule IH)
    then show ?thesis using False unfolding goal by simp
  qed
qed
  then show "see_loop T P to us stm bal occ att = Some y \<Longrightarrow> see_loop T Q to us stm bal occ att = Some y"
    by blast
qed

lemma see_loop_cong:
  assumes "byTypeBB P = byTypeBB Q" "byColorBB P = byColorBB Q" "st P = st Q"
  shows "see_loop T P to us stm bal occ att = see_loop T Q to us stm bal occ att"
proof (cases "see_loop T P to us stm bal occ att")
  case None
  show ?thesis
  proof (cases "see_loop T Q to us stm bal occ att")
    case None
    with \<open>see_loop T P to us stm bal occ att = None\<close> show ?thesis by simp
  next
    case (Some y)
    then have "see_loop T P to us stm bal occ att = Some y"
      using assms by (intro see_loop_Some_cong [of Q P]) simp_all
    with Some show ?thesis by simp
  qed
next
  case (Some y)
  then have "see_loop T Q to us stm bal occ att = Some y"
    using assms by (intro see_loop_Some_cong [of P Q]) simp_all
  with Some show ?thesis by simp
qed


text \<open>
  C10.  For a move that is not a normal move \<^verbatim>\<open>see_ge\<close> returns at once, and returns
  true exactly when zero is at least the threshold.  For a normal move the balance
  first compared with zero is the value of the piece on the destination minus the
  threshold, plus the value of the gating piece when the destination hosts one:
  \<^verbatim>\<open>see_ge\<close> is false when that balance is negative, true when the balance is at least
  the value of the moved piece, and otherwise the answer of the exchange loop started
  with the balance less the value of the moved piece.  So for a destination that
  hosts a gating piece the answer is the one \<^verbatim>\<open>see_ge\<close> gives without the gate when the
  threshold is lowered by the value of the gating piece.
\<close>

theorem C10_see_ge:
  "(move_type m \<noteq> NORMAL \<longrightarrow> see_ge T P m threshold = Some (0 \<ge> threshold))
   \<and> (move_type m = NORMAL \<longrightarrow>
        (let from = from_sq m; to = to_sq m;
             gate_value = (if gateBB P AND SquareBB to \<noteq> 0
                           then PieceValueMG T (WHITE, gating_piece_sq P to) else 0);
             balance = PieceValueMG T (piece_on P to) - threshold + gate_value;
             victim = PieceValueMG T (WHITE, type_of (piece_on P from));
             us = color_of (piece_on P from);
             occupied = pieces P XOR SquareBB from XOR SquareBB to
         in (balance < 0 \<longrightarrow> see_ge T P m threshold = Some False)
          \<and> (0 \<le> balance \<and> victim \<le> balance \<longrightarrow> see_ge T P m threshold = Some True)
          \<and> (0 \<le> balance \<and> balance < victim \<longrightarrow>
                see_ge T P m threshold
                  = see_loop T P to us (flip_color us) (balance - victim) occupied
                      (attackers_to_occ T P to occupied AND occupied))))
   \<and> (move_type m = NORMAL \<and> gateBB P AND SquareBB (to_sq m) \<noteq> 0 \<longrightarrow>
        see_ge T P m threshold
          = see_ge T (P\<lparr>gateBB := gateBB P AND NOT (SquareBB (to_sq m))\<rparr>) m
              (threshold - PieceValueMG T (WHITE, gating_piece_sq P (to_sq m))))"
proof (intro conjI impI)
  assume "move_type m \<noteq> NORMAL"
  then show "see_ge T P m threshold = Some (0 \<ge> threshold)"
    by (simp add: see_ge_def)
next
  assume a: "move_type m = NORMAL"
  show "let from = from_sq m; to = to_sq m;
             gate_value = (if gateBB P AND SquareBB to \<noteq> 0
                           then PieceValueMG T (WHITE, gating_piece_sq P to) else 0);
             balance = PieceValueMG T (piece_on P to) - threshold + gate_value;
             victim = PieceValueMG T (WHITE, type_of (piece_on P from));
             us = color_of (piece_on P from);
             occupied = pieces P XOR SquareBB from XOR SquareBB to
         in (balance < 0 \<longrightarrow> see_ge T P m threshold = Some False)
          \<and> (0 \<le> balance \<and> victim \<le> balance \<longrightarrow> see_ge T P m threshold = Some True)
          \<and> (0 \<le> balance \<and> balance < victim \<longrightarrow>
                see_ge T P m threshold
                  = see_loop T P to us (flip_color us) (balance - victim) occupied
                      (attackers_to_occ T P to occupied AND occupied))"
    using a by (simp add: see_ge_def Let_def)
next
  assume a: "move_type m = NORMAL \<and> gateBB P AND SquareBB (to_sq m) \<noteq> 0"
  define Q where "Q = P\<lparr>gateBB := gateBB P AND NOT (SquareBB (to_sq m))\<rparr>"
  define v where "v = PieceValueMG T (WHITE, gating_piece_sq P (to_sq m))"
  have gq: "gateBB Q AND SquareBB (to_sq m) = 0"
    by (simp add: Q_def and.assoc)
  have flds: "byTypeBB Q = byTypeBB P" "byColorBB Q = byColorBB P" "st Q = st P"
    "board Q = board P"
    by (simp_all add: Q_def)
  have loop: "see_loop T Q to us stm bal occ att = see_loop T P to us stm bal occ att"
    for to us stm bal occ att
    by (rule see_loop_cong) (simp_all add: flds)
  have att: "attackers_to_occ T Q s occ = attackers_to_occ T P s occ" for s occ
    by (simp add: attackers_to_occ_def pieces_cp_def flds)
  have "see_ge T Q m (threshold - v) = see_ge T P m threshold"
    unfolding see_ge_def Let_def loop att gq
    using a by (simp add: piece_on_def pieces_def flds v_def algebra_simps)
  then show "see_ge T P m threshold
          = see_ge T (P\<lparr>gateBB := gateBB P AND NOT (SquareBB (to_sq m))\<rparr>) m
              (threshold - PieceValueMG T (WHITE, gating_piece_sq P (to_sq m)))"
    by (simp add: Q_def v_def)
qed

theorem C10_see_ge_witness:
  "move_type (make CASTLING 4 7 NO_PIECE_TYPE) \<noteq> NORMAL
   \<and> see_ge plain_tables cleared_position (make CASTLING 4 7 NO_PIECE_TYPE) 1 = Some False
   \<and> move_type (make_move 0 56) = NORMAL
   \<and> gateBB gated_rook_position AND SquareBB (to_sq (make_move 0 56)) \<noteq> 0
   \<and> gateBB plain_rook_position AND SquareBB (to_sq (make_move 0 56)) = 0
   \<and> see_ge value_tables gated_rook_position (make_move 0 56) 401 = Some True
   \<and> see_ge value_tables gated_rook_position (make_move 0 56) 1000 = Some True
   \<and> see_ge value_tables gated_rook_position (make_move 0 56) 1001 = Some False
   \<and> see_ge value_tables plain_rook_position (make_move 0 56) 401 = Some False"
proof -
  have h1: "move_type (make CASTLING 4 7 NO_PIECE_TYPE) \<noteq> NORMAL"
    by (simp add: make_def)
  have m: "move_type (make_move 0 56) = NORMAL" "from_sq (make_move 0 56) = 0"
    "to_sq (make_move 0 56) = 56"
    by (simp_all add: make_move_def make_def)
  have g: "gateBB gated_rook_position AND SquareBB 56 \<noteq> 0"
    "gateBB plain_rook_position AND SquareBB 56 = 0"
    by (simp_all add: gated_rook_position_def plain_rook_position_def add_gate_def put_piece_def
        cleared_position_def Let_def SquareBB_def)
  have v: "PieceValueMG value_tables (piece_on gated_rook_position 56) = 400"
    "PieceValueMG value_tables (WHITE, gating_piece_sq gated_rook_position 56) = 600"
    "PieceValueMG value_tables (WHITE, type_of (piece_on gated_rook_position 0)) = 400"
    "PieceValueMG value_tables (piece_on plain_rook_position 56) = 400"
    by (simp_all add: value_tables_def gated_rook_position_def plain_rook_position_def
        add_gate_def put_piece_def cleared_position_def Let_def piece_on_def gating_piece_sq_def
        gating_piece_def piece_type_defs type_of_def)
  have c: "see_ge plain_tables cleared_position (make CASTLING 4 7 NO_PIECE_TYPE) 1 = Some False"
    using C10_see_ge [of "make CASTLING 4 7 NO_PIECE_TYPE" plain_tables cleared_position 1] h1
    by simp
  have t1: "see_ge value_tables gated_rook_position (make_move 0 56) 401 = Some True"
    using C10_see_ge [of "make_move 0 56" value_tables gated_rook_position 401]
    by (simp add: m g v Let_def)
  have l: "see_loop value_tables gated_rook_position 56
             (color_of (piece_on gated_rook_position 0))
             (flip_color (color_of (piece_on gated_rook_position 0))) (- 400)
             (pieces gated_rook_position XOR SquareBB 0 XOR SquareBB 56)
             (attackers_to_occ value_tables gated_rook_position 56
                (pieces gated_rook_position XOR SquareBB 0 XOR SquareBB 56)
              AND (pieces gated_rook_position XOR SquareBB 0 XOR SquareBB 56)) = Some True"
    by code_simp
  have t2: "see_ge value_tables gated_rook_position (make_move 0 56) 1000 = Some True"
    using C10_see_ge [of "make_move 0 56" value_tables gated_rook_position 1000]
    by (simp add: m g v Let_def l)
  have t3: "see_ge value_tables gated_rook_position (make_move 0 56) 1001 = Some False"
    using C10_see_ge [of "make_move 0 56" value_tables gated_rook_position 1001]
    by (simp add: m g v Let_def)
  have t4: "see_ge value_tables plain_rook_position (make_move 0 56) 401 = Some False"
    using C10_see_ge [of "make_move 0 56" value_tables plain_rook_position 401]
    by (simp add: m g v Let_def)
  show ?thesis
    using h1 c t1 t2 t3 t4 by (simp add: m g)
qed

section \<open>The en-passant square\<close>

lemma xor16_int: "(f :: int) XOR 16 = (if bit f 4 then f - 16 else f + 16)"
proof -
  have "f XOR 16 = flip_bit 4 f" by (simp add: flip_bit_eq_xor)
  then show ?thesis by (simp add: flip_bit_eq_if set_bit_eq unset_bit_eq)
qed

lemma xor16_diff: "(t :: int) XOR f = 16 \<Longrightarrow> t = f + 16 \<or> t = f - 16"
proof -
  assume "t XOR f = 16"
  then have "t = f XOR 16" by (metis xor.commute xor.left_commute xor_self_eq xor.right_neutral)
  then show ?thesis by (simp add: xor16_int split: if_splits)
qed

lemma bit4_int: "0 \<le> f \<Longrightarrow> f < 64 \<Longrightarrow> bit (f :: int) 4 \<longleftrightarrow> odd (f div 16)"
  by (simp add: bit_iff_odd)

lemma double_push_xor:
  assumes "pawn_shaped us from to"
  shows "to XOR from = 16 \<longleftrightarrow> to = from + 2 * pawn_push us"
proof
  assume "to XOR from = 16"
  then have "to = from + 16 \<or> to = from - 16" by (rule xor16_diff)
  then show "to = from + 2 * pawn_push us"
    using assms by (cases us) (auto simp: pawn_shaped_def pawn_push_def)
next
  assume d: "to = from + 2 * pawn_push us"
  have "from XOR 16 = to"
  proof (cases us)
    case WHITE
    then have "8 \<le> from \<and> from < 16" "to = from + 16"
      using assms d by (auto simp: pawn_shaped_def pawn_push_def rank_of_def relative_rank_def)
    then have "from div 16 = 0" by presburger
    then have "\<not> bit from 4" by (simp add: bit_iff_odd)
    then show ?thesis using \<open>to = from + 16\<close> by (simp add: xor16_int)
  next
    case BLACK
    then have "48 \<le> from \<and> from < 56" "to = from - 16"
      using assms d by (auto simp: pawn_shaped_def pawn_push_def rank_of_def relative_rank_def)
    then have "from div 16 = 3" by presburger
    then have "bit from 4" by (simp add: bit_iff_odd)
    then show ?thesis using \<open>to = from - 16\<close> by (simp add: xor16_int)
  qed
  then show "to XOR from = 16"
    by (metis xor.commute xor.left_commute xor_self_eq xor.right_neutral)
qed


lemma set_check_info_ep [simp]:
  "epSquare (set_check_info T P s) = epSquare s" "key (set_check_info T P s) = key s"
  by (simp_all add: set_check_info_def Let_def split: prod.splits)

lemma ep_put_piece [simp]: "st (put_piece P pc s) = st P"
  by (simp add: put_piece_def Let_def)
lemma ep_remove_piece [simp]: "st (remove_piece P pc s) = st P"
  by (simp add: remove_piece_def Let_def)
lemma ep_move_piece [simp]: "st (move_piece P pc f t) = st P"
  by (simp add: move_piece_def Let_def)
lemma ep_add_gate [simp]: "st (add_gate P c s g) = st P"
  by (simp add: add_gate_def)
lemma ep_remove_gate [simp]: "st (remove_gate P c s g) = st P"
  by (simp add: remove_gate_def)
lemma ep_gate_piece [simp]: "epSquare (st (gate_piece P c s)) = epSquare (st P)"
  by (simp add: gate_piece_def Let_def)
lemma ep_capture_gate [simp]: "epSquare (st (capture_gate P c s)) = epSquare (st P)"
  by (simp add: capture_gate_def Let_def)

lemma ep_do_castling:
  "do_castling T True us from to k P = (P', r) \<Longrightarrow> epSquare (st P') = epSquare (st P)"
  by (auto simp: do_castling_def Let_def upd_st_def split: if_splits)

lemma ep_do_capture:
  "do_capture T m us captured to k P = (P', k') \<Longrightarrow> epSquare (st P') = epSquare (st P)"
  by (auto simp: do_capture_def Let_def upd_st_def split: if_splits prod.splits)

lemma ep_do_reset_ep:
  "do_reset_ep T k P = (P', k') \<Longrightarrow> epSquare (st P') = SQ_NONE"
  by (auto simp: do_reset_ep_def upd_st_def split: if_splits)

lemma ep_do_castling_rights:
  "do_castling_rights T from to k P = (P', k') \<Longrightarrow> epSquare (st P') = epSquare (st P)"
  by (auto simp: do_castling_rights_def Let_def upd_st_def split: if_splits)

lemma ep_do_move_and_gate:
  "do_move_and_gate T m us pc from to k P = (P', k') \<Longrightarrow> epSquare (st P') = epSquare (st P)"
  by (auto simp: do_move_and_gate_def Let_def upd_st_def split: if_splits)

lemma pre_components:
  assumes "do_board_move_pre T m k P = (P6, k6, pc, to, cap)"
  shows "epSquare (st P6) = SQ_NONE" "pc = piece_on P (from_sq m)"
    "move_type m \<noteq> CASTLING \<Longrightarrow> to = to_sq m"
  using assms
  by (auto simp: do_board_move_pre_def do_board_move_pre0_def do_board_move_pre00_def Let_def piece_on_def upd_st_def
      split: prod.splits if_splits
      dest!: ep_do_reset_ep ep_do_castling_rights ep_do_move_and_gate)


lemma do_pawn_ep:
  assumes "do_pawn T m us pc from to k P = (P', k')" and "epSquare (st P) = SQ_NONE"
    and "to - pawn_push us \<noteq> SQ_NONE"
  shows "epSquare (st P') \<noteq> SQ_NONE \<longleftrightarrow>
           type_of pc = PAWN \<and> to XOR from = 16
           \<and> attacks_from T P us PAWN (to - pawn_push us) AND pieces_cp P (flip_color us) PAWN \<noteq> 0"
    and "epSquare (st P') \<noteq> SQ_NONE \<Longrightarrow>
           epSquare (st P') = to - pawn_push us
           \<and> k' = k XOR Zobrist_enpassant T (file_of (to - pawn_push us))"
  using assms
  by (auto simp: do_pawn_def Let_def upd_st_def split: if_splits)

lemma do_move_board:
  assumes "move_type m \<noteq> SET_GATING_TYPE" "move_type m \<noteq> PUT_GATING_PIECE"
    and "do_board_move_pre T m (key (st P) XOR Zobrist_side T)
           (P\<lparr>previous := st P # previous P, st := copy_prefix s (st P)\<rparr>) = (P6, k6, pc, to, cap)"
    and "do_pawn T m (sideToMove P) pc (from_sq m) to k6 P6 = (P7, k7)"
  shows "epSquare (st (do_move T m s g P)) = epSquare (st P7)"
    and "key (st (do_move T m s g P)) = k7"
  using assms
  by (cases "move_type m"; simp add: do_move_def do_board_move_def Let_def upd_st_def)+


lemma attackers_to_upd_st [simp]: "attackers_to T (upd_st f P) s = attackers_to T P s"
  by (simp add: attackers_to_def attackers_to_occ_def pieces_cp_def upd_st_def)

lemma pieces_cp_upd_st [simp]: "pieces_cp (upd_st f P) c pt = pieces_cp P c pt"
  by (simp add: pieces_cp_def upd_st_def)

lemma set_en_passant_eq:
  "epSquare (st (set_en_passant T col row P)) =
    (case (col, row) of
       (Some c, Some r) \<Rightarrow>
         (let ep = make_square (int (of_char c) - int (of_char CHR ''a''))
                               (int (of_char r) - int (of_char CHR ''1''))
          in if (of_char CHR ''a'' :: nat) \<le> of_char c \<and> of_char c \<le> (of_char CHR ''h'' :: nat)
                \<and> (r = CHR ''3'' \<or> r = CHR ''6'')
                \<and> attackers_to T P ep AND pieces_cp P (sideToMove P) PAWN \<noteq> 0
                \<and> pieces_cp P (flip_color (sideToMove P)) PAWN
                     AND SquareBB (ep + pawn_push (flip_color (sideToMove P))) \<noteq> 0
             then ep else SQ_NONE)
     | _ \<Rightarrow> SQ_NONE)"
  by (auto simp: set_en_passant_def Let_def split: option.splits)

lemma pawn_attacks_e3: "pawn_attacks WHITE 20 = 0x28000000"
  by (simp add: pawn_attacks_def is_ok_def distance_def file_of_def rank_of_def SquareBB_def square_defs)

lemma pushed_position_ep:
  "epSquare (st (set_en_passant ep_tables (Some CHR ''e'') (Some CHR ''3'') pushed_position)) = 20"
  by (simp add: set_en_passant_eq Let_def make_square_def attackers_to_def attackers_to_occ_def
      ep_tables_def pawn_tables_def plain_tables_def pawn_attacks_e3 pieces_cp_def pushed_position_def put_piece_def
      cleared_position_def piece_type_defs type_of_def color_of_def make_piece_def SquareBB_def
      pawn_push_def upt_rec)

section \<open>Gating on a normal move\<close>

subsection \<open>The fields the primitives leave and change\<close>

lemma put_piece_fields [simp]:
  "board (put_piece P pc s) = (board P)(s := pc)"
  "gateBB (put_piece P pc s) = gateBB P"
  "gateBoard (put_piece P pc s) = gateBoard P"
  "gatingSquares (put_piece P pc s) = gatingSquares P"
  "gatingPieces (put_piece P pc s) = gatingPieces P"
  "previous (put_piece P pc s) = previous P"
  "sideToMove (put_piece P pc s) = sideToMove P"
  "byTypeBB (put_piece P pc s) ALL_PIECES = byTypeBB P ALL_PIECES OR SquareBB s"
  "pieceCount (put_piece P pc s) =
     (let c1 = (pieceCount P)(pc := pieceCount P pc + 1)
      in c1((color_of pc, ALL_PIECES) := c1 (color_of pc, ALL_PIECES) + 1))"
  by (simp_all add: put_piece_def Let_def make_piece_def)

lemma remove_piece_fields [simp]:
  "board (remove_piece P pc s) = board P"
  "gateBB (remove_piece P pc s) = gateBB P"
  "gateBoard (remove_piece P pc s) = gateBoard P"
  "gatingSquares (remove_piece P pc s) = gatingSquares P"
  "gatingPieces (remove_piece P pc s) = gatingPieces P"
  "previous (remove_piece P pc s) = previous P"
  "sideToMove (remove_piece P pc s) = sideToMove P"
  "pieceCount (remove_piece P pc s) =
     (let c1 = (pieceCount P)(pc := pieceCount P pc - 1)
      in c1((color_of pc, ALL_PIECES) := c1 (color_of pc, ALL_PIECES) - 1))"
  by (simp_all add: remove_piece_def Let_def make_piece_def)

lemma move_piece_fields [simp]:
  "board (move_piece P pc f t) = (board P)(f := NO_PIECE, t := pc)"
  "gateBB (move_piece P pc f t) = gateBB P"
  "gateBoard (move_piece P pc f t) = gateBoard P"
  "gatingSquares (move_piece P pc f t) = gatingSquares P"
  "gatingPieces (move_piece P pc f t) = gatingPieces P"
  "previous (move_piece P pc f t) = previous P"
  "sideToMove (move_piece P pc f t) = sideToMove P"
  "pieceCount (move_piece P pc f t) = pieceCount P"
  by (simp_all add: move_piece_def Let_def)

lemma add_gate_fields [simp]:
  "board (add_gate P c s g) = board P"
  "gateBB (add_gate P c s g) = gateBB P OR SquareBB s"
  "gateBoard (add_gate P c s g) = (gateBoard P)(s := g)"
  "gatingSquares (add_gate P c s g) = (gatingSquares P)(c := (gatingSquares P c)(g := s))"
  "gatingPieces (add_gate P c s g) = gatingPieces P"
  "previous (add_gate P c s g) = previous P"
  "sideToMove (add_gate P c s g) = sideToMove P"
  "byTypeBB (add_gate P c s g) = byTypeBB P"
  "pieceCount (add_gate P c s g) = pieceCount P"
  by (simp_all add: add_gate_def)

lemma remove_gate_fields [simp]:
  "board (remove_gate P c s g) = board P"
  "gateBB (remove_gate P c s g) = gateBB P XOR SquareBB s"
  "gateBoard (remove_gate P c s g) = (gateBoard P)(s := NO_GATE)"
  "gatingSquares (remove_gate P c s g) = (gatingSquares P)(c := (gatingSquares P c)(g := SQ_NONE))"
  "gatingPieces (remove_gate P c s g) = gatingPieces P"
  "previous (remove_gate P c s g) = previous P"
  "sideToMove (remove_gate P c s g) = sideToMove P"
  "byTypeBB (remove_gate P c s g) = byTypeBB P"
  "pieceCount (remove_gate P c s g) = pieceCount P"
  by (simp_all add: remove_gate_def)

lemma upd_st_more_fields [simp]:
  "board (upd_st f P) = board P"
  "gateBB (upd_st f P) = gateBB P"
  "gateBoard (upd_st f P) = gateBoard P"
  "gatingSquares (upd_st f P) = gatingSquares P"
  "byTypeBB (upd_st f P) = byTypeBB P"
  "byColorBB (upd_st f P) = byColorBB P"
  "pieceCount (upd_st f P) = pieceCount P"
  "gamePly (upd_st f P) = gamePly P"
  by (simp_all add: upd_st_def)


lemma gate_piece_fields [simp]:
  "board (gate_piece P c s) = (board P)(s := make_piece c (gatingPieces P (gateBoard P s)))"
  "gateBB (gate_piece P c s) = gateBB P XOR SquareBB s"
  "gateBoard (gate_piece P c s) = (gateBoard P)(s := NO_GATE)"
  "gatingSquares (gate_piece P c s) = (gatingSquares P)(c := (gatingSquares P c)(gateBoard P s := SQ_NONE))"
  "gatingPieces (gate_piece P c s) = gatingPieces P"
  "previous (gate_piece P c s) = previous P"
  "sideToMove (gate_piece P c s) = sideToMove P"
  "byTypeBB (gate_piece P c s) ALL_PIECES = byTypeBB P ALL_PIECES OR SquareBB s"
  "pieceCount (gate_piece P c s) =
     (let gp = make_piece c (gatingPieces P (gateBoard P s));
          c1 = (pieceCount P)(gp := pieceCount P gp + 1)
      in c1((c, ALL_PIECES) := c1 (c, ALL_PIECES) + 1))"
  "st (gate_piece P c s) = (st P)\<lparr>gate := gateBoard P s\<rparr>"
  by (simp_all add: gate_piece_def Let_def make_piece_def color_of_def)

lemma ungate_piece_fields [simp]:
  "board (ungate_piece P c s) = board P"
  "gateBB (ungate_piece P c s) = gateBB P OR SquareBB s"
  "gateBoard (ungate_piece P c s) = (gateBoard P)(s := gate (st P))"
  "gatingSquares (ungate_piece P c s) = (gatingSquares P)(c := (gatingSquares P c)(gate (st P) := s))"
  "gatingPieces (ungate_piece P c s) = gatingPieces P"
  "previous (ungate_piece P c s) = previous P"
  "sideToMove (ungate_piece P c s) = sideToMove P"
  "pieceCount (ungate_piece P c s) =
     (let gp = make_piece c (gatingPieces P (gate (st P)));
          c1 = (pieceCount P)(gp := pieceCount P gp - 1)
      in c1((c, ALL_PIECES) := c1 (c, ALL_PIECES) - 1))"
  "st (ungate_piece P c s) = st P"
  by (simp_all add: ungate_piece_def Let_def make_piece_def color_of_def)

lemma capture_gate_fields [simp]:
  "board (capture_gate P c s) = board P"
  "gateBB (capture_gate P c s) = gateBB P XOR SquareBB s"
  "gateBoard (capture_gate P c s) = (gateBoard P)(s := NO_GATE)"
  "gatingSquares (capture_gate P c s) = (gatingSquares P)(c := (gatingSquares P c)(gateBoard P s := SQ_NONE))"
  "gatingPieces (capture_gate P c s) = gatingPieces P"
  "previous (capture_gate P c s) = previous P"
  "sideToMove (capture_gate P c s) = sideToMove P"
  "byTypeBB (capture_gate P c s) = byTypeBB P"
  "pieceCount (capture_gate P c s) = pieceCount P"
  "st (capture_gate P c s) = (st P)\<lparr>capturedGate := gateBoard P s\<rparr>"
  by (simp_all add: capture_gate_def Let_def)

lemma uncapture_gate_fields [simp]:
  "board (uncapture_gate P c s) = board P"
  "gateBB (uncapture_gate P c s) = gateBB P OR SquareBB s"
  "gateBoard (uncapture_gate P c s) = (gateBoard P)(s := capturedGate (st P))"
  "gatingSquares (uncapture_gate P c s) = (gatingSquares P)(c := (gatingSquares P c)(capturedGate (st P) := s))"
  "gatingPieces (uncapture_gate P c s) = gatingPieces P"
  "previous (uncapture_gate P c s) = previous P"
  "sideToMove (uncapture_gate P c s) = sideToMove P"
  "pieceCount (uncapture_gate P c s) = pieceCount P"
  "st (uncapture_gate P c s) = st P"
  by (simp_all add: uncapture_gate_def)


lemma gamePly_prims [simp]:
  "gamePly (put_piece P pc s) = gamePly P" "gamePly (remove_piece P pc s) = gamePly P"
  "gamePly (move_piece P pc f t) = gamePly P" "gamePly (add_gate P c s g) = gamePly P"
  "gamePly (remove_gate P c s g) = gamePly P" "gamePly (gate_piece P c s) = gamePly P"
  "gamePly (ungate_piece P c s) = gamePly P" "gamePly (capture_gate P c s) = gamePly P"
  "gamePly (uncapture_gate P c s) = gamePly P"
  by (simp_all add: put_piece_def remove_piece_def move_piece_def add_gate_def remove_gate_def
      gate_piece_def ungate_piece_def capture_gate_def uncapture_gate_def Let_def)


lemma set_check_info_fields [simp]:
  "gate (set_check_info T P s) = gate s" "capturedGate (set_check_info T P s) = capturedGate s"
  "capturedPiece (set_check_info T P s) = capturedPiece s" "psq (set_check_info T P s) = psq s"
  "key (set_check_info T P s) = key s"
  by (simp_all add: set_check_info_def Let_def split: prod.splits)

subsection \<open>The phases of a normal move\<close>


lemma do_reset_ep_fields [simp]:
  "board (fst (do_reset_ep T k P)) = board P"
  "gatingPieces (fst (do_reset_ep T k P)) = gatingPieces P"
  "previous (fst (do_reset_ep T k P)) = previous P"
  "sideToMove (fst (do_reset_ep T k P)) = sideToMove P"
  "gamePly (fst (do_reset_ep T k P)) = gamePly P"
  "pieceCount (fst (do_reset_ep T k P)) = pieceCount P"
  "gateBB (fst (do_reset_ep T k P)) = gateBB P"
  "gateBoard (fst (do_reset_ep T k P)) = gateBoard P"
  "gatingSquares (fst (do_reset_ep T k P)) = gatingSquares P"
  "gate (st (fst (do_reset_ep T k P))) = gate (st P)"
  "capturedGate (st (fst (do_reset_ep T k P))) = capturedGate (st P)"
  "psq (st (fst (do_reset_ep T k P))) = psq (st P)"
  by (simp_all add: do_reset_ep_def)

lemma do_castling_rights_fields [simp]:
  "board (fst (do_castling_rights T f t k P)) = board P"
  "gatingPieces (fst (do_castling_rights T f t k P)) = gatingPieces P"
  "previous (fst (do_castling_rights T f t k P)) = previous P"
  "sideToMove (fst (do_castling_rights T f t k P)) = sideToMove P"
  "gamePly (fst (do_castling_rights T f t k P)) = gamePly P"
  "pieceCount (fst (do_castling_rights T f t k P)) = pieceCount P"
  "gateBB (fst (do_castling_rights T f t k P)) = gateBB P"
  "gateBoard (fst (do_castling_rights T f t k P)) = gateBoard P"
  "gatingSquares (fst (do_castling_rights T f t k P)) = gatingSquares P"
  "gate (st (fst (do_castling_rights T f t k P))) = gate (st P)"
  "capturedGate (st (fst (do_castling_rights T f t k P))) = capturedGate (st P)"
  "psq (st (fst (do_castling_rights T f t k P))) = psq (st P)"
  by (simp_all add: do_castling_rights_def Let_def)








lemma st_prims [simp]:
  "st (put_piece P pc s) = st P" "st (remove_piece P pc s) = st P"
  "st (move_piece P pc f t) = st P" "st (add_gate P c s g) = st P"
  "st (remove_gate P c s g) = st P"
  by (simp_all add: put_piece_def remove_piece_def move_piece_def add_gate_def remove_gate_def
      Let_def)

lemma flip_color_neq [simp]: "flip_color c \<noteq> c" "c \<noteq> flip_color c"
  by (cases c; simp)+




subsection \<open>The bitboards and the piece list\<close>




lemma bitboards_gates [simp]:
  "byColorBB (add_gate P c s g) = byColorBB P" "byColorBB (remove_gate P c s g) = byColorBB P"
  "byColorBB (capture_gate P c s) = byColorBB P" "byColorBB (uncapture_gate P c s) = byColorBB P"
  "byTypeBB (uncapture_gate P c s) = byTypeBB P"
  by (simp_all add: add_gate_def remove_gate_def capture_gate_def uncapture_gate_def Let_def)




lemma bitboards_reset_castling [simp]:
  "byTypeBB (fst (do_reset_ep T k P)) = byTypeBB P"
  "byColorBB (fst (do_reset_ep T k P)) = byColorBB P"
  "byTypeBB (fst (do_castling_rights T f t k P)) = byTypeBB P"
  "byColorBB (fst (do_castling_rights T f t k P)) = byColorBB P"
  by (simp_all add: do_reset_ep_def do_castling_rights_def Let_def)












lemma lists_upd_st [simp]:
  "pieceList (upd_st f P) = pieceList P" "index (upd_st f P) = index P"
  by (simp_all add: upd_st_def)





section \<open>The en-passant square and the key\<close>

lemma key_do_reset_ep:
  "snd (do_reset_ep T k P)
     = k XOR (if epSquare (st P) \<noteq> SQ_NONE then Zobrist_enpassant T (file_of (epSquare (st P)))
              else 0)"
  by (simp add: do_reset_ep_def)

lemma key_do_castling_rights:
  "snd (do_castling_rights T f t k P)
     = k XOR (if castlingRights (st P) \<noteq> 0 \<and> castlingRightsMask P f OR castlingRightsMask P t \<noteq> 0
              then Zobrist_castling T (castlingRights (st P)
                     AND (castlingRightsMask P f OR castlingRightsMask P t))
              else 0)"
  by (simp add: do_castling_rights_def Let_def)

lemma key_do_move_and_gate:
  "snd (do_move_and_gate T m us pc f t k P)
     = k XOR (if move_type m \<noteq> CASTLING \<and> gateBB P AND SquareBB f \<noteq> 0
              then Zobrist_psq T (make_piece us (gating_piece_sq P f)) f
                   XOR Zobrist_psq_gate T (make_piece us (gating_piece_sq P f)) (file_of f)
              else 0)"
  by (simp add: do_move_and_gate_def Let_def gating_piece_sq_def gating_piece_def)

lemma key_do_pawn:
  "snd (do_pawn T m us pc f t k P)
     = k XOR (if type_of pc = PAWN
              then (if t XOR f = 16
                       \<and> attacks_from T P us PAWN (t - pawn_push us)
                           AND pieces_cp P (flip_color us) PAWN \<noteq> 0
                    then Zobrist_enpassant T (file_of (t - pawn_push us))
                    else if type_of_move m = PROMOTION
                    then Zobrist_psq T pc t XOR Zobrist_psq T (make_piece us (promotion_type m)) t
                    else 0)
              else 0)"
  by (simp add: do_pawn_def Let_def case_prod_beta)

lemma mask_prims [simp]:
  "castlingRightsMask (put_piece P pc s) = castlingRightsMask P"
  "castlingRightsMask (remove_piece P pc s) = castlingRightsMask P"
  "castlingRightsMask (move_piece P pc f t) = castlingRightsMask P"
  "castlingRightsMask (add_gate P c s g) = castlingRightsMask P"
  "castlingRightsMask (remove_gate P c s g) = castlingRightsMask P"
  "castlingRightsMask (gate_piece P c s) = castlingRightsMask P"
  "castlingRightsMask (capture_gate P c s) = castlingRightsMask P"
  "castlingRightsMask (upd_st h P) = castlingRightsMask P"
  by (simp_all add: put_piece_def remove_piece_def move_piece_def add_gate_def remove_gate_def
      gate_piece_def capture_gate_def upd_st_def Let_def)

lemma rights_prims [simp]:
  "castlingRights (st (gate_piece P c s)) = castlingRights (st P)"
  "castlingRights (st (capture_gate P c s)) = castlingRights (st P)"
  by (simp_all add: gate_piece_def capture_gate_def Let_def)

lemma kept_do_castling:
  "do_castling T True us f t k P = (P', r) \<Longrightarrow>
     epSquare (st P') = epSquare (st P) \<and> castlingRights (st P') = castlingRights (st P)
     \<and> castlingRightsMask P' = castlingRightsMask P"
  by (auto simp: do_castling_def Let_def split: if_splits)

lemma kept_do_capture:
  "do_capture T m us cap t k P = (P', k') \<Longrightarrow>
     epSquare (st P') = epSquare (st P) \<and> castlingRights (st P') = castlingRights (st P)
     \<and> castlingRightsMask P' = castlingRightsMask P"
  by (auto simp: do_capture_def Let_def split: if_splits prod.splits)

lemma kept_pre00:
  assumes "do_board_move_pre00 T m k P = (P3, k3, pc, to, cap)"
  shows "epSquare (st P3) = epSquare (st P)" "castlingRights (st P3) = castlingRights (st P)"
    "castlingRightsMask P3 = castlingRightsMask P" "pc = piece_on P (from_sq m)"
    "move_type m \<noteq> CASTLING \<Longrightarrow> to = to_sq m"
  using assms
  by (auto simp: do_board_move_pre00_def Let_def piece_on_def
      split: prod.splits if_splits dest!: kept_do_castling kept_do_capture)


lemma rights_do_reset_ep [simp]:
  "castlingRights (st (fst (do_reset_ep T k P))) = castlingRights (st P)"
  "castlingRightsMask (fst (do_reset_ep T k P)) = castlingRightsMask P"
  by (simp_all add: do_reset_ep_def)

lemma bitboards_do_pawn:
  assumes "type_of pc = PAWN \<longrightarrow> type_of_move m \<noteq> PROMOTION"
  shows "byTypeBB (fst (do_pawn T m us pc f t k P)) = byTypeBB P"
    "byColorBB (fst (do_pawn T m us pc f t k P)) = byColorBB P"
  using assms by (simp_all add: do_pawn_def Let_def case_prod_beta)

lemma bitboards_do_move:
  assumes "move_type m \<noteq> SET_GATING_TYPE" "move_type m \<noteq> PUT_GATING_PIECE"
    and "do_board_move_pre T m (key (st P) XOR Zobrist_side T)
           (P\<lparr>previous := st P # previous P, st := copy_prefix s (st P)\<rparr>) = (P6, k6, pc, to, cap)"
  shows "byTypeBB (do_move T m s g P)
           = byTypeBB (fst (do_pawn T m (sideToMove P) pc (from_sq m) to k6 P6))"
    "byColorBB (do_move T m s g P)
           = byColorBB (fst (do_pawn T m (sideToMove P) pc (from_sq m) to k6 P6))"
  using assms
  by (cases "move_type m"; simp add: do_move_def do_board_move_def Let_def case_prod_beta)+

lemma pawn_attacks_passed:
  assumes sh: "pawn_shaped us f t" and d: "t = f + 2 * pawn_push us"
  shows "pawn_attacks us (f + pawn_push us)
           = (if file_of t > 0 then SquareBB (t - 1) else 0)
             OR (if file_of t < 7 then SquareBB (t + 1) else 0)"
proof (cases us)
  case WHITE
  then have "8 \<le> f \<and> f < 16"
    using sh d by (auto simp: pawn_shaped_def pawn_push_def rank_of_def relative_rank_def)
  then have "f \<in> {8, 9, 10, 11, 12, 13, 14, 15}" by auto
  then show ?thesis
    unfolding d WHITE
    by (elim insertE emptyE)
       (simp_all add: pawn_attacks_def pawn_push_def is_ok_def distance_def file_of_def
          rank_of_def square_defs Let_def)
next
  case BLACK
  then have "48 \<le> f \<and> f < 56"
    using sh d by (auto simp: pawn_shaped_def pawn_push_def rank_of_def relative_rank_def)
  then have "f \<in> {48, 49, 50, 51, 52, 53, 54, 55}" by auto
  then show ?thesis
    unfolding d BLACK
    by (elim insertE emptyE)
       (simp_all add: pawn_attacks_def pawn_push_def is_ok_def distance_def file_of_def
          rank_of_def square_defs Let_def or.commute)
qed

lemma and_or_nonzero:
  "((a OR b) AND (x :: Bitboard) \<noteq> 0) = (x AND a \<noteq> 0 \<or> x AND b \<noteq> 0)"
proof -
  have "(a OR b) AND x = (x AND a) OR (x AND b)"
    by (simp add: bit.conj_disj_distrib and.commute)
  then show ?thesis by (simp only: or_eq_0_iff) blast
qed


lemma en_passant_of_move:
  assumes a1: "move_type m \<noteq> SET_GATING_TYPE" and a2: "move_type m \<noteq> PUT_GATING_PIECE"
    and a3: "type_of (piece_on P (from_sq m)) = PAWN \<longrightarrow>
           move_type m \<noteq> CASTLING \<and> pawn_shaped (sideToMove P) (from_sq m) (to_sq m)
           \<and> (to_sq m = from_sq m + 2 * pawn_push (sideToMove P) \<longrightarrow> type_of_move m \<noteq> PROMOTION)"
  shows "(let us = sideToMove P; them = flip_color us; from = from_sq m; to = to_sq m;
              (P3, k3, pc, to', cap) = do_board_move_pre00 T m (key (st P) XOR Zobrist_side T)
                  (P\<lparr>previous := st P # previous P, st := copy_prefix s (st P)\<rparr>);
              P' = do_move T m s g P;
              double = (type_of (piece_on P from) = PAWN \<and> to = from + 2 * pawn_push us);
              ready = (attacks_from T P' us PAWN (from + pawn_push us)
                         AND pieces_cp P' them PAWN \<noteq> 0);
              old = epSquare (st P);
              castling_term =
                (if castlingRights (st P) \<noteq> 0
                    \<and> castlingRightsMask P from OR castlingRightsMask P to' \<noteq> 0
                 then Zobrist_castling T (castlingRights (st P)
                        AND (castlingRightsMask P from OR castlingRightsMask P to'))
                 else 0);
              gating_term =
                (if move_type m \<noteq> CASTLING \<and> gateBB P3 AND SquareBB from \<noteq> 0
                 then Zobrist_psq T (make_piece us (gating_piece_sq P3 from)) from
                      XOR Zobrist_psq_gate T (make_piece us (gating_piece_sq P3 from)) (file_of from)
                 else 0);
              promotion_term =
                (if type_of pc = PAWN \<and> type_of_move m = PROMOTION
                 then Zobrist_psq T pc to' XOR Zobrist_psq T (make_piece us (promotion_type m)) to'
                 else 0)
          in (epSquare (st P') \<noteq> SQ_NONE \<longleftrightarrow> double \<and> ready)
           \<and> (double \<and> ready \<longrightarrow> epSquare (st P') = from + pawn_push us)
           \<and> key (st P') =
                k3 XOR (if old \<noteq> SQ_NONE then Zobrist_enpassant T (file_of old) else 0)
                   XOR castling_term XOR gating_term XOR promotion_term
                   XOR (if double \<and> ready then Zobrist_enpassant T (file_of (from + pawn_push us))
                        else 0)
           \<and> ((\<forall>c sq occ. attacks_bb T c PAWN sq occ = pawn_attacks c sq) \<and> double \<longrightarrow>
                 (ready \<longleftrightarrow> file_of to > 0 \<and> pieces_cp P' them PAWN AND SquareBB (to - 1) \<noteq> 0
                          \<or> file_of to < 7 \<and> pieces_cp P' them PAWN AND SquareBB (to + 1) \<noteq> 0)))"
proof -
  define us where "us = sideToMove P"
  define frm where "frm = from_sq m"
  define P0 where "P0 = P\<lparr>previous := st P # previous P, st := copy_prefix s (st P)\<rparr>"
  define D where "D = do_move T m s g P"
  obtain P3 k3 pc to' cap where
    pre00: "do_board_move_pre00 T m (key (st P) XOR Zobrist_side T) P0 = (P3, k3, pc, to', cap)"
    by (cases "do_board_move_pre00 T m (key (st P) XOR Zobrist_side T) P0") auto
  define P4 where "P4 = fst (do_reset_ep T k3 P3)"
  define k4 where "k4 = snd (do_reset_ep T k3 P3)"
  define P5 where "P5 = fst (do_castling_rights T frm to' k4 P4)"
  define k5 where "k5 = snd (do_castling_rights T frm to' k4 P4)"
  define P6 where "P6 = fst (do_move_and_gate T m us pc frm to' k5 P5)"
  define k6 where "k6 = snd (do_move_and_gate T m us pc frm to' k5 P5)"
  define P7 where "P7 = fst (do_pawn T m us pc frm to' k6 P6)"
  define k7 where "k7 = snd (do_pawn T m us pc frm to' k6 P6)"
  have stm: "sideToMove P0 = sideToMove P" by (simp add: P0_def)
  have pre: "do_board_move_pre T m (key (st P) XOR Zobrist_side T) P0 = (P6, k6, pc, to', cap)"
    by (simp add: do_board_move_pre_def do_board_move_pre0_def pre00 Let_def case_prod_beta
        P4_def k4_def P5_def k5_def P6_def k6_def us_def frm_def stm)
  have pw: "do_pawn T m us pc frm to' k6 P6 = (P7, k7)" by (simp add: P7_def k7_def)
  note kp = kept_pre00 [OF pre00]
  have pc: "pc = piece_on P frm" using kp(4) by (simp add: P0_def piece_on_def frm_def)
  have ep6: "epSquare (st P6) = SQ_NONE" using pre_components(1) [OF pre] .
  have res: "epSquare (st D) = epSquare (st P7)" "key (st D) = k7"
    unfolding D_def
    using do_move_board [OF a1 a2 pre [unfolded P0_def] pw [unfolded us_def frm_def]]
    by simp_all
  have bb: "byTypeBB D = byTypeBB P7" "byColorBB D = byColorBB P7"
    unfolding D_def P7_def us_def frm_def
    using bitboards_do_move [OF a1 a2 pre [unfolded P0_def]] by simp_all
  define double where "double = (type_of pc = PAWN \<and> to_sq m = frm + 2 * pawn_push us)"
  define ready6 where "ready6 = (attacks_from T P6 us PAWN (frm + pawn_push us)
                                   AND pieces_cp P6 (flip_color us) PAWN \<noteq> 0)"
  define ready where "ready = (attacks_from T D us PAWN (frm + pawn_push us)
                                   AND pieces_cp D (flip_color us) PAWN \<noteq> 0)"
  have rr: "ready = ready6" if double
  proof -
    have "type_of pc = PAWN \<longrightarrow> type_of_move m \<noteq> PROMOTION"
      using that a3 unfolding double_def pc us_def frm_def by simp
    from bitboards_do_pawn [OF this, of T us frm to' k6 P6]
    have "byTypeBB D = byTypeBB P6" "byColorBB D = byColorBB P6"
      unfolding bb P7_def by simp_all
    then show ?thesis
      by (simp add: ready_def ready6_def attacks_from_def pieces_cp_def)
  qed
  have x: "to' = to_sq m \<and> (to' XOR frm = 16 \<longleftrightarrow> to_sq m = frm + 2 * pawn_push us)
           \<and> to_sq m - pawn_push us \<noteq> SQ_NONE" if "type_of pc = PAWN"
  proof -
    have nc: "move_type m \<noteq> CASTLING" and sh: "pawn_shaped us frm (to_sq m)"
      using a3 that by (simp_all add: pc us_def frm_def)
    have "to' = to_sq m" using kp(5) [OF nc] .
    moreover have "to_sq m XOR frm = 16 \<longleftrightarrow> to_sq m = frm + 2 * pawn_push us"
      using sh by (rule double_push_xor)
    moreover have "to_sq m - pawn_push us \<noteq> SQ_NONE"
      using sh by (cases us) (auto simp: pawn_shaped_def pawn_push_def SQ_NONE_def file_of_def)
    ultimately show ?thesis by simp
  qed
  have e: "to_sq m - pawn_push us = frm + pawn_push us" if double
    using that by (simp add: double_def)
  have pawn: "(epSquare (st P7) \<noteq> SQ_NONE \<longleftrightarrow> double \<and> ready6)
      \<and> (double \<and> ready6 \<longrightarrow> epSquare (st P7) = frm + pawn_push us)
      \<and> k7 = k6 XOR (if type_of pc = PAWN \<and> type_of_move m = PROMOTION
                      then Zobrist_psq T pc to'
                           XOR Zobrist_psq T (make_piece us (promotion_type m)) to' else 0)
                 XOR (if double \<and> ready6 then Zobrist_enpassant T (file_of (frm + pawn_push us))
                      else 0)"
  proof (cases "type_of pc = PAWN")
    case False
    then have "epSquare (st P7) = SQ_NONE" "k7 = k6"
      using pw ep6 by (simp_all add: do_pawn_def)
    with False show ?thesis by (simp add: double_def)
  next
    case True
    note y = x [OF True]
    have to': "to' = to_sq m" using y by simp
    note dp = do_pawn_ep [OF pw [unfolded to'] ep6 conjunct2 [OF conjunct2 [OF y]]]
    have k: "k7 = k6 XOR (if to_sq m XOR frm = 16
                       \<and> attacks_from T P6 us PAWN (to_sq m - pawn_push us)
                           AND pieces_cp P6 (flip_color us) PAWN \<noteq> 0
                    then Zobrist_enpassant T (file_of (to_sq m - pawn_push us))
                    else if type_of_move m = PROMOTION
                    then Zobrist_psq T pc (to_sq m)
                         XOR Zobrist_psq T (make_piece us (promotion_type m)) (to_sq m)
                    else 0)"
      unfolding k7_def to' using True by (simp add: key_do_pawn)
    have np: "type_of_move m \<noteq> PROMOTION" if double
      using that a3 unfolding double_def pc us_def frm_def by simp
    show ?thesis
    proof (cases double)
      case False
      then have n: "to_sq m XOR frm \<noteq> 16" using y True by (simp add: double_def to')
      show ?thesis using dp(1) k n False True by (simp add: to')
    next
      case d: True
      then have s16: "to_sq m XOR frm = 16" using y by (simp add: double_def to')
      show ?thesis
        using dp k True d s16 np [OF d] unfolding e [OF d] ready6_def [symmetric]
        by (cases ready6) (auto simp: to')
    qed
  qed
  have k4: "k4 = k3 XOR (if epSquare (st P) \<noteq> SQ_NONE
                          then Zobrist_enpassant T (file_of (epSquare (st P))) else 0)"
    unfolding k4_def key_do_reset_ep kp(1) by (simp add: P0_def copy_prefix_def)
  have k5: "k5 = k4 XOR (if castlingRights (st P) \<noteq> 0
                    \<and> castlingRightsMask P frm OR castlingRightsMask P to' \<noteq> 0
                 then Zobrist_castling T (castlingRights (st P)
                        AND (castlingRightsMask P frm OR castlingRightsMask P to'))
                 else 0)"
    unfolding k5_def key_do_castling_rights P4_def
    by (simp add: kp(2,3) P0_def copy_prefix_def)
  have k6: "k6 = k5 XOR (if move_type m \<noteq> CASTLING \<and> gateBB P3 AND SquareBB frm \<noteq> 0
                 then Zobrist_psq T (make_piece us (gating_piece_sq P3 frm)) frm
                      XOR Zobrist_psq_gate T (make_piece us (gating_piece_sq P3 frm)) (file_of frm)
                 else 0)"
    unfolding k6_def key_do_move_and_gate P5_def P4_def
    by (simp add: gating_piece_sq_def gating_piece_def)
  have adj: "ready \<longleftrightarrow> file_of (to_sq m) > 0
                 \<and> pieces_cp D (flip_color us) PAWN AND SquareBB (to_sq m - 1) \<noteq> 0
               \<or> file_of (to_sq m) < 7
                 \<and> pieces_cp D (flip_color us) PAWN AND SquareBB (to_sq m + 1) \<noteq> 0"
    if tb: "\<forall>c sq occ. attacks_bb T c PAWN sq occ = pawn_attacks c sq" and d: double
  proof -
    have sh: "pawn_shaped us frm (to_sq m)" "to_sq m = frm + 2 * pawn_push us"
      using a3 d unfolding double_def pc us_def frm_def by simp_all
    show ?thesis
      unfolding ready_def attacks_from_def
      by (simp add: tb pawn_attacks_passed [OF sh] and_or_nonzero)
  qed
  have fin: "(epSquare (st D) \<noteq> SQ_NONE \<longleftrightarrow> double \<and> ready)
      \<and> (double \<and> ready \<longrightarrow> epSquare (st D) = frm + pawn_push us)
      \<and> key (st D) = k3 XOR (if epSquare (st P) \<noteq> SQ_NONE
                          then Zobrist_enpassant T (file_of (epSquare (st P))) else 0)
            XOR (if castlingRights (st P) \<noteq> 0
                    \<and> castlingRightsMask P frm OR castlingRightsMask P to' \<noteq> 0
                 then Zobrist_castling T (castlingRights (st P)
                        AND (castlingRightsMask P frm OR castlingRightsMask P to'))
                 else 0)
            XOR (if move_type m \<noteq> CASTLING \<and> gateBB P3 AND SquareBB frm \<noteq> 0
                 then Zobrist_psq T (make_piece us (gating_piece_sq P3 frm)) frm
                      XOR Zobrist_psq_gate T (make_piece us (gating_piece_sq P3 frm)) (file_of frm)
                 else 0)
            XOR (if type_of pc = PAWN \<and> type_of_move m = PROMOTION
                      then Zobrist_psq T pc to'
                           XOR Zobrist_psq T (make_piece us (promotion_type m)) to' else 0)
            XOR (if double \<and> ready then Zobrist_enpassant T (file_of (frm + pawn_push us))
                      else 0)"
  proof (cases double)
    case True
    show ?thesis
      using pawn unfolding res rr [OF True] k6 k5 k4 by (simp add: ac_simps)
  next
    case False
    show ?thesis
      using pawn False unfolding res k6 k5 k4 by (simp add: ac_simps)
  qed
  show ?thesis
    unfolding Let_def us_def [symmetric] frm_def [symmetric] P0_def [symmetric] pre00 prod.case
      D_def [symmetric] pc [symmetric]
    using fin adj
    unfolding double_def ready_def pc
    by blast
qed

text \<open>
  C7.  For a move of the playing phase whose pawn moves have the shape of pawn moves
  (and a pawn that advances two squares does not promote): the en-passant square of
  the state after \<^verbatim>\<open>do_move\<close> is set exactly when the moved piece is a pawn that
  advanced two squares and, in the position reached, a pawn of the other side stands
  on a square from which it attacks the square passed over (the squares a pawn of the
  mover would attack from there); the square set is the square passed over.  The key
  of the new state is the key accumulated up to the update for the squares of the
  moved piece, with the en-passant key of the old en-passant square XOR-ed out when
  there was one, the keys of the castling rights lost, of a gating and of a promotion
  XOR-ed in, and the en-passant key of the file of the new square XOR-ed in exactly
  when the square is set.  With the pawn attacks that \<^verbatim>\<open>Bitboards::init\<close> computes, the
  condition on the pawn of the other side is that it stands beside the destination
  of the pushed pawn, on an adjacent file.
  The en-passant field of a FEN leaves an en-passant square other than \<^verbatim>\<open>SQ_NONE\<close>
  only when it names a file \<^verbatim>\<open>a\<close>..\<^verbatim>\<open>h\<close> and the rank 3 or 6, a pawn of the side to
  move attacks that square and a pawn of the other side stands one push beyond it;
  otherwise the square is \<^verbatim>\<open>SQ_NONE\<close>.
\<close>

theorem C7_en_passant:
  assumes "move_type m \<noteq> SET_GATING_TYPE" and "move_type m \<noteq> PUT_GATING_PIECE"
    and "type_of (piece_on P (from_sq m)) = PAWN \<longrightarrow>
           move_type m \<noteq> CASTLING \<and> pawn_shaped (sideToMove P) (from_sq m) (to_sq m)
           \<and> (to_sq m = from_sq m + 2 * pawn_push (sideToMove P) \<longrightarrow> type_of_move m \<noteq> PROMOTION)"
  shows "(let us = sideToMove P; them = flip_color us; from = from_sq m; to = to_sq m;
              (P3, k3, pc, to', cap) = do_board_move_pre00 T m (key (st P) XOR Zobrist_side T)
                  (P\<lparr>previous := st P # previous P, st := copy_prefix s (st P)\<rparr>);
              P' = do_move T m s g P;
              double = (type_of (piece_on P from) = PAWN \<and> to = from + 2 * pawn_push us);
              ready = (attacks_from T P' us PAWN (from + pawn_push us)
                         AND pieces_cp P' them PAWN \<noteq> 0);
              old = epSquare (st P);
              castling_term =
                (if castlingRights (st P) \<noteq> 0
                    \<and> castlingRightsMask P from OR castlingRightsMask P to' \<noteq> 0
                 then Zobrist_castling T (castlingRights (st P)
                        AND (castlingRightsMask P from OR castlingRightsMask P to'))
                 else 0);
              gating_term =
                (if move_type m \<noteq> CASTLING \<and> gateBB P3 AND SquareBB from \<noteq> 0
                 then Zobrist_psq T (make_piece us (gating_piece_sq P3 from)) from
                      XOR Zobrist_psq_gate T (make_piece us (gating_piece_sq P3 from)) (file_of from)
                 else 0);
              promotion_term =
                (if type_of pc = PAWN \<and> type_of_move m = PROMOTION
                 then Zobrist_psq T pc to' XOR Zobrist_psq T (make_piece us (promotion_type m)) to'
                 else 0)
          in (epSquare (st P') \<noteq> SQ_NONE \<longleftrightarrow> double \<and> ready)
           \<and> (double \<and> ready \<longrightarrow> epSquare (st P') = from + pawn_push us)
           \<and> key (st P') =
                k3 XOR (if old \<noteq> SQ_NONE then Zobrist_enpassant T (file_of old) else 0)
                   XOR castling_term XOR gating_term XOR promotion_term
                   XOR (if double \<and> ready then Zobrist_enpassant T (file_of (from + pawn_push us))
                        else 0)
           \<and> ((\<forall>c sq occ. attacks_bb T c PAWN sq occ = pawn_attacks c sq) \<and> double \<longrightarrow>
                 (ready \<longleftrightarrow> file_of to > 0 \<and> pieces_cp P' them PAWN AND SquareBB (to - 1) \<noteq> 0
                          \<or> file_of to < 7 \<and> pieces_cp P' them PAWN AND SquareBB (to + 1) \<noteq> 0)))
       \<and> (let ep = epSquare (st (set_en_passant T col row Q))
          in (ep \<noteq> SQ_NONE \<longrightarrow>
                attackers_to T Q ep AND pieces_cp Q (sideToMove Q) PAWN \<noteq> 0
              \<and> pieces_cp Q (flip_color (sideToMove Q)) PAWN
                   AND SquareBB (ep + pawn_push (flip_color (sideToMove Q))) \<noteq> 0
              \<and> (\<exists>c r. col = Some c \<and> row = Some r
                     \<and> (of_char CHR ''a'' :: nat) \<le> of_char c \<and> of_char c \<le> (of_char CHR ''h'' :: nat)
                     \<and> (r = CHR ''3'' \<or> r = CHR ''6'')
                     \<and> ep = make_square (int (of_char c) - int (of_char CHR ''a''))
                                         (int (of_char r) - int (of_char CHR ''1'')))))"
proof (rule conjI)
  show "let ep = epSquare (st (set_en_passant T col row Q))
          in (ep \<noteq> SQ_NONE \<longrightarrow>
                attackers_to T Q ep AND pieces_cp Q (sideToMove Q) PAWN \<noteq> 0
              \<and> pieces_cp Q (flip_color (sideToMove Q)) PAWN
                   AND SquareBB (ep + pawn_push (flip_color (sideToMove Q))) \<noteq> 0
              \<and> (\<exists>c r. col = Some c \<and> row = Some r
                     \<and> (of_char CHR ''a'' :: nat) \<le> of_char c \<and> of_char c \<le> (of_char CHR ''h'' :: nat)
                     \<and> (r = CHR ''3'' \<or> r = CHR ''6'')
                     \<and> ep = make_square (int (of_char c) - int (of_char CHR ''a''))
                                         (int (of_char r) - int (of_char CHR ''1''))))"
    unfolding Let_def set_en_passant_eq
    by (auto split: option.splits if_splits)
qed (rule en_passant_of_move [OF assms])

theorem C7_en_passant_witness:
  "move_type (make_move 12 28) \<noteq> SET_GATING_TYPE \<and> move_type (make_move 12 28) \<noteq> PUT_GATING_PIECE
   \<and> type_of (piece_on second_push_position (from_sq (make_move 12 28))) = PAWN
   \<and> move_type (make_move 12 28) \<noteq> CASTLING
   \<and> pawn_shaped (sideToMove second_push_position) (from_sq (make_move 12 28))
        (to_sq (make_move 12 28))
   \<and> type_of_move (make_move 12 28) \<noteq> PROMOTION
   \<and> (\<forall>c sq occ. attacks_bb ep_tables c PAWN sq occ = pawn_attacks c sq)
   \<and> epSquare (st second_push_position) = 41 \<and> key (st second_push_position) = 0
   \<and> epSquare (st (do_move ep_tables (make_move 12 28) zero_state False second_push_position)) = 20
   \<and> key (st (do_move ep_tables (make_move 12 28) zero_state False second_push_position))
        = 1 XOR 3 XOR 6
   \<and> pieces_cp (do_move ep_tables (make_move 12 28) zero_state False second_push_position)
        BLACK PAWN AND SquareBB 27 \<noteq> 0
   \<and> epSquare (st (set_en_passant ep_tables (Some CHR ''e'') (Some CHR ''3'') pushed_position)) = 20
   \<and> pieces_cp pushed_position WHITE PAWN AND SquareBB 28 \<noteq> 0"
proof -
  define D where "D = do_move ep_tables (make_move 12 28) zero_state False second_push_position"
  define R where "R = do_board_move_pre00 ep_tables (make_move 12 28)
      (key (st second_push_position) XOR Zobrist_side ep_tables)
      (second_push_position\<lparr>previous := st second_push_position # previous second_push_position,
                             st := copy_prefix zero_state (st second_push_position)\<rparr>)"
  have m: "move_type (make_move 12 28) = NORMAL" "from_sq (make_move 12 28) = 12"
    "to_sq (make_move 12 28) = 28" "type_of_move (make_move 12 28) = NORMAL"
    by (simp_all add: make_move_def make_def type_of_move_def)
  have p: "piece_on second_push_position 12 = (WHITE, PAWN)"
    "sideToMove second_push_position = WHITE"
    "epSquare (st second_push_position) = 41" "key (st second_push_position) = 0"
    "castlingRights (st second_push_position) = 0"
    by (simp_all add: piece_on_def second_push_position_def push_position_def put_piece_def
        cleared_position_def Let_def upd_st_def zero_state_def)
  have sh: "pawn_shaped WHITE 12 28"
    by (simp add: pawn_shaped_def pawn_push_def rank_of_def relative_rank_def)
  have h3: "type_of (piece_on second_push_position (from_sq (make_move 12 28))) = PAWN \<longrightarrow>
      move_type (make_move 12 28) \<noteq> CASTLING
      \<and> pawn_shaped (sideToMove second_push_position) (from_sq (make_move 12 28))
           (to_sq (make_move 12 28))
      \<and> (to_sq (make_move 12 28)
            = from_sq (make_move 12 28) + 2 * pawn_push (sideToMove second_push_position)
          \<longrightarrow> type_of_move (make_move 12 28) \<noteq> PROMOTION)"
    by (simp add: m p sh)
  have r: "fst (snd R) = 1" "gateBB (fst R) = 0" unfolding R_def by code_simp+
  have d: "pieces_cp D BLACK PAWN = 0x8000000" unfolding D_def by code_simp
  have at: "attacks_from ep_tables Q WHITE PAWN 20 = 0x28000000" for Q
    by (simp add: attacks_from_def ep_tables_def pawn_tables_def pawn_attacks_e3)
  have z: "Zobrist_enpassant ep_tables f = word_of_int (f + 2)" for f
    by (simp add: ep_tables_def pawn_tables_def)
  have stm: "sideToMove pushed_position = BLACK"
    by (simp add: pushed_position_def)
  have h12: "move_type (make_move 12 28) \<noteq> SET_GATING_TYPE"
    "move_type (make_move 12 28) \<noteq> PUT_GATING_PIECE"
    by (simp_all add: m)
  note t = C7_en_passant [of "make_move 12 28" second_push_position ep_tables zero_state False
        "Some CHR ''e''" "Some CHR ''3''" pushed_position, OF h12 h3,
        folded D_def R_def]
  have t1: "type_of (piece_on second_push_position 12) = PAWN" by (simp add: p type_of_def)
  have rdy: "attacks_from ep_tables D WHITE PAWN 20 AND pieces_cp D BLACK PAWN \<noteq> 0"
    by (simp add: at d)
  have A: "epSquare (st D) = 20 \<and> key (st D) = 1 XOR 3 XOR 6"
    using t
    apply (simp only: m Let_def case_prod_beta p(2,3,4,5) t1 pawn_push_def Color.case flip_color.simps r z)
    apply (simp add: rdy SQ_NONE_def file_of_def)
    done
  have B: "pieces_cp pushed_position WHITE PAWN AND SquareBB 28 \<noteq> 0"
    using t by (simp add: m Let_def pushed_position_ep SQ_NONE_def stm pawn_push_def)
  have C: "pieces_cp D BLACK PAWN AND SquareBB 27 \<noteq> 0"
    by (simp add: d SquareBB_def)
  have E: "\<forall>c sq occ. attacks_bb ep_tables c PAWN sq occ = pawn_attacks c sq"
    by (simp add: ep_tables_def pawn_tables_def)
  show ?thesis
    using A B C E unfolding D_def
    by (simp add: m p sh pushed_position_ep type_of_def)
qed

section \<open>Captures, quiets and non-evasions\<close>

subsection \<open>Lists, multisets and bit scans\<close>





lemma squares_of_bits:
  "s \<in> set (squares_of b) \<longleftrightarrow> 0 \<le> s \<and> s < 64 \<and> bit b (nat s)"
  by (simp add: set_squares_of)


subsection \<open>The generators return\<close>














subsection \<open>Captures and quiets make up the non-evasions\<close>






subsection \<open>No move is generated twice\<close>

























section \<open>Reversibility of castling\<close>

text \<open>
  C1 (the code at a failing input).  In \<open>castle_position\<close>, a position of the playing
  phase, White castles king side: the king goes from f1 to g1, the rook from h1 to
  f1, and the cannon whose gating home is h1 is gated in on h1.  \<^verbatim>\<open>undo_move\<close> looks
  for the gated piece on the king's origin first; the rook stands there now, and since
  f1 is the rook's destination nothing is ungated.  After the undo the board array is
  as before, but h1 is no longer a gating home (\<^verbatim>\<open>gateBB\<close>, \<^verbatim>\<open>gateBoard\<close> and
  \<^verbatim>\<open>gatingSquares\<close> differ from the position before the move) and the cannon is still
  in its type bitboard and its piece count.  The second half is the same run with a
  caller's \<^verbatim>\<open>StateInfo\<close> whose \<^verbatim>\<open>capturedGate\<close> field, which this path of \<^verbatim>\<open>do_move\<close>
  never writes, holds 2: then the undo makes f1 a gating home.
\<close>

theorem C1_castling_undo_loses_gate:
  "game_phase plain_tables castle_position = GAMEPHASE_PLAYING
   \<and> gateBB castle_position = 0x82
   \<and> gateBoard castle_position 7 = 1
   \<and> gatingSquares castle_position WHITE 1 = 7
   \<and> byTypeBB castle_position CANNON = 0
   \<and> pieceCount castle_position (WHITE, CANNON) = 0
   \<and> (case undo_move plain_tables (make CASTLING 5 7 NO_PIECE_TYPE)
             (do_move plain_tables (make CASTLING 5 7 NO_PIECE_TYPE) zero_state False castle_position) of
         None \<Rightarrow> False
       | Some U \<Rightarrow> gateBB U = 0x02 \<and> gateBoard U 7 = NO_GATE
                  \<and> gatingSquares U WHITE 1 = SQ_NONE
                  \<and> byTypeBB U CANNON = 0x80 \<and> pieceCount U (WHITE, CANNON) = 1
                  \<and> board U 7 = (WHITE, ROOK) \<and> board U 5 = (WHITE, KING plain_tables))
   \<and> (case undo_move plain_tables (make CASTLING 5 7 NO_PIECE_TYPE)
             (do_move plain_tables (make CASTLING 5 7 NO_PIECE_TYPE)
                (zero_state\<lparr>capturedGate := 2\<rparr>) False castle_position) of
         None \<Rightarrow> False
       | Some U \<Rightarrow> gateBB U = 0x22 \<and> gateBoard U 7 = NO_GATE \<and> gateBoard U 5 = 2
                  \<and> byTypeBB U CANNON = 0x80 \<and> pieceCount U (WHITE, CANNON) = 1)"
  by code_simp

end
